theory Spec2Isabelle
  imports Main "HOL-Library.Sublist" "HOL-Library.Word"
begin

section \<open>Strings of the source language\<close>

text \<open>
  A JavaScript string is a sequence of 16-bit code units. Regular expressions without the
  \<^verbatim>\<open>u\<close> flag, \<^verbatim>\<open>trim\<close>, \<^verbatim>\<open>startsWith\<close>, \<^verbatim>\<open>includes\<close> and \<^verbatim>\<open>JSON.parse\<close> all work
  on code units, so the model does too. \<open>str\<close> turns an ASCII literal into code units.
\<close>

type_synonym cu = "16 word"
type_synonym jsstring = "cu list"

definition str :: "string \<Rightarrow> jsstring" where
  "str s = map of_char s"

definition is_lt :: "cu \<Rightarrow> bool" where
  \<comment> \<open>LineTerminator: LF, CR, U+2028, U+2029 (what \<^verbatim>\<open>.\<close> does not match, where \<^verbatim>\<open>^\<close> and \<^verbatim>\<open>$\<close> anchor under /m)\<close>
  "is_lt c = (c = 0x0A \<or> c = 0x0D \<or> c = 0x2028 \<or> c = 0x2029)"

definition is_ws :: "cu \<Rightarrow> bool" where
  \<comment> \<open>the class \<^verbatim>\<open>\s\<close>, also what \<^verbatim>\<open>trim\<close> removes: WhiteSpace and LineTerminator\<close>
  "is_ws c = (c = 0x09 \<or> c = 0x0A \<or> c = 0x0B \<or> c = 0x0C \<or> c = 0x0D \<or> c = 0x20
      \<or> c = 0xA0 \<or> c = 0x1680 \<or> (0x2000 \<le> c \<and> c \<le> 0x200A) \<or> c = 0x2028 \<or> c = 0x2029
      \<or> c = 0x202F \<or> c = 0x205F \<or> c = 0x3000 \<or> c = 0xFEFF)"

definition trim :: "jsstring \<Rightarrow> jsstring" where
  "trim s = rev (dropWhile is_ws (rev (dropWhile is_ws s)))"

definition startsWith :: "jsstring \<Rightarrow> jsstring \<Rightarrow> bool" where
  "startsWith s p = prefix p s"

definition endsWith :: "jsstring \<Rightarrow> jsstring \<Rightarrow> bool" where
  "endsWith s p = suffix p s"

fun includes_js :: "jsstring \<Rightarrow> jsstring \<Rightarrow> bool" where
  "includes_js [] p = (p = [])"
| "includes_js (c # cs) p = (prefix p (c # cs) \<or> includes_js cs p)"

fun join :: "jsstring \<Rightarrow> jsstring list \<Rightarrow> jsstring" where
  "join sep [] = []"
| "join sep [x] = x"
| "join sep (x # y # ys) = x @ sep @ join sep (y # ys)"

definition toLowerCase :: "jsstring \<Rightarrow> jsstring" where
  \<comment> \<open>The source compares the lowered value only with the ASCII literals \<^verbatim>\<open>true\<close>,
      \<^verbatim>\<open>false\<close> and the empty string; no code unit outside A-Z lowers to a letter of these
      words, so lowering A-Z alone decides the same comparisons.\<close>
  "toLowerCase s = map (\<lambda>c. if 0x41 \<le> c \<and> c \<le> 0x5A then c + 0x20 else c) s"


section \<open>Extraction of the YAML block (utils/config.js, parseYamlFromText)\<close>

text \<open>
  The pattern is \<^verbatim>\<open>/```yaml\s*\n([\s\S]*?)\n\s*```/g\<close>. The loop collects every match and
  the function returns the first capture, so the model computes the leftmost match.
  At a start position the greedy \<^verbatim>\<open>\s*\<close> is followed by a line feed: the engine tries the
  last line feed of the whitespace run first and backtracks to earlier ones. The lazy
  capture is the shortest text after which \<^verbatim>\<open>\n\s*```\<close> matches.
\<close>

definition close_at :: "jsstring \<Rightarrow> bool" where
  "close_at s = (case s of [] \<Rightarrow> False
     | c # r \<Rightarrow> c = 0x0A \<and> prefix (str ''```'') (dropWhile is_ws r))"

fun lazy_body :: "jsstring \<Rightarrow> jsstring option" where
  "lazy_body [] = None"
| "lazy_body (c # cs) =
     (if close_at (c # cs) then Some [] else map_option ((#) c) (lazy_body cs))"

fun first_some :: "'a option list \<Rightarrow> 'a option" where
  "first_some [] = None"
| "first_some (None # xs) = first_some xs"
| "first_some (Some x # xs) = Some x"

definition open_at :: "jsstring \<Rightarrow> jsstring option" where
  \<comment> \<open>\<open>r\<close> is the text after the opening fence\<close>
  "open_at r = (let n = length (takeWhile is_ws r) in
     first_some (map (\<lambda>j. lazy_body (drop (Suc j) r))
                     (rev (filter (\<lambda>j. r ! j = 0x0A) [0..<n]))))"

fun yaml_block_search :: "jsstring \<Rightarrow> jsstring option" where
  "yaml_block_search [] = None"
| "yaml_block_search (c # cs) =
     (if prefix (str ''```yaml'') (c # cs) then
        (case open_at (drop 7 (c # cs)) of
           Some body \<Rightarrow> Some body
         | None \<Rightarrow> yaml_block_search cs)
      else yaml_block_search cs)"

definition parseYamlFromText :: "jsstring \<Rightarrow> jsstring option" where
  "parseYamlFromText text = (if text = [] then None else yaml_block_search text)"

section \<open>JSON.parse and String() of the runtime\<close>

text \<open>
  \<^verbatim>\<open>JSON.parse\<close> is modelled by a lexer and a stack parser for the JSON grammar. A number
  keeps its source text: turning it into a double and back into a string is floating
  point arithmetic of the runtime, taken as the parameter \<open>nf\<close> wherever an array is parsed.
\<close>

datatype json = JNull | JBool bool | JNum jsstring | JStr jsstring
  | JArr "json list" | JObj "(jsstring \<times> json) list"

datatype tok = TLBrack | TRBrack | TLBrace | TRBrace | TComma | TColon
  | TStr jsstring | TWord jsstring

definition json_ws :: "cu \<Rightarrow> bool" where
  "json_ws c = (c = 0x20 \<or> c = 0x09 \<or> c = 0x0A \<or> c = 0x0D)"

definition is_digit :: "cu \<Rightarrow> bool" where
  "is_digit c = (0x30 \<le> c \<and> c \<le> 0x39)"

definition word_char :: "cu \<Rightarrow> bool" where
  \<comment> \<open>the characters of numbers and of the literals true, false, null\<close>
  "word_char c = (is_digit c \<or> (0x41 \<le> c \<and> c \<le> 0x5A) \<or> (0x61 \<le> c \<and> c \<le> 0x7A)
      \<or> c = 0x2B \<or> c = 0x2D \<or> c = 0x2E)"

definition hexval :: "cu \<Rightarrow> cu option" where
  "hexval c = (if is_digit c then Some (c - 0x30)
     else if 0x41 \<le> c \<and> c \<le> 0x46 then Some (c - 0x37)
     else if 0x61 \<le> c \<and> c \<le> 0x66 then Some (c - 0x57)
     else None)"

definition simple_escape :: "cu \<Rightarrow> cu option" where
  "simple_escape c = (if c = 0x22 \<or> c = 0x5C \<or> c = 0x2F then Some c
     else if c = 0x62 then Some 0x08
     else if c = 0x66 then Some 0x0C
     else if c = 0x6E then Some 0x0A
     else if c = 0x72 then Some 0x0D
     else if c = 0x74 then Some 0x09
     else None)"

fun lex :: "jsstring \<Rightarrow> tok list option"
  and lex_str :: "jsstring \<Rightarrow> jsstring \<Rightarrow> tok list option"
  and lex_esc :: "jsstring \<Rightarrow> jsstring \<Rightarrow> tok list option"
  and lex_word :: "jsstring \<Rightarrow> jsstring \<Rightarrow> tok list option"
where
  "lex [] = Some []"
| "lex (c # cs) =
     (if json_ws c then lex cs
      else if c = 0x5B then map_option ((#) TLBrack) (lex cs)
      else if c = 0x5D then map_option ((#) TRBrack) (lex cs)
      else if c = 0x7B then map_option ((#) TLBrace) (lex cs)
      else if c = 0x7D then map_option ((#) TRBrace) (lex cs)
      else if c = 0x2C then map_option ((#) TComma) (lex cs)
      else if c = 0x3A then map_option ((#) TColon) (lex cs)
      else if c = 0x22 then lex_str [] cs
      else if word_char c then lex_word [c] cs
      else None)"
| "lex_str acc [] = None"
| "lex_str acc (c # cs) =
     (if c = 0x22 then map_option ((#) (TStr (rev acc))) (lex cs)
      else if c = 0x5C then lex_esc acc cs
      else if c < 0x20 then None
      else lex_str (c # acc) cs)"
| "lex_esc acc [] = None"
| "lex_esc acc (c # cs) =
     (if c = 0x75 then
        (case cs of
           a # b # d # e # rest \<Rightarrow>
             (case (hexval a, hexval b, hexval d, hexval e) of
                (Some h3, Some h2, Some h1, Some h0) \<Rightarrow>
                  lex_str ((h3 * 0x1000 + h2 * 0x100 + h1 * 0x10 + h0) # acc) rest
              | _ \<Rightarrow> None)
         | _ \<Rightarrow> None)
      else (case simple_escape c of
              Some x \<Rightarrow> lex_str (x # acc) cs
            | None \<Rightarrow> None))"
| "lex_word acc [] = Some [TWord (rev acc)]"
| "lex_word acc (c # cs) =
     (if word_char c then lex_word (c # acc) cs
      else map_option ((#) (TWord (rev acc))) (lex (c # cs)))"

definition json_number :: "jsstring \<Rightarrow> bool" where
  \<comment> \<open>\<^verbatim>\<open>-? (0 | [1-9][0-9]*) (. [0-9]+)? ([eE] [+-]? [0-9]+)?\<close>\<close>
  "json_number s =
     (let a = (case s of [] \<Rightarrow> [] | c # r \<Rightarrow> if c = 0x2D then r else s);
          ip = takeWhile is_digit a;
          r1 = dropWhile is_digit a;
          r2 = (case r1 of
                  [] \<Rightarrow> Some []
                | c # r \<Rightarrow>
                    if c = 0x2E then
                      (if takeWhile is_digit r = [] then None else Some (dropWhile is_digit r))
                    else Some r1)
      in ip \<noteq> [] \<and> (hd ip = 0x30 \<longrightarrow> length ip = 1) \<and>
         (case r2 of
            None \<Rightarrow> False
          | Some [] \<Rightarrow> True
          | Some (c # r) \<Rightarrow>
              (c = 0x65 \<or> c = 0x45) \<and>
              (let d = (case r of [] \<Rightarrow> [] | x # y \<Rightarrow> if x = 0x2B \<or> x = 0x2D then y else r)
               in d \<noteq> [] \<and> list_all is_digit d)))"

definition word_value :: "jsstring \<Rightarrow> json option" where
  "word_value w =
     (if w = str ''true'' then Some (JBool True)
      else if w = str ''false'' then Some (JBool False)
      else if w = str ''null'' then Some JNull
      else if json_number w then Some (JNum w)
      else None)"

datatype frame = FArr "json list" | FObj "(jsstring \<times> json) list"
  | FKey "(jsstring \<times> json) list" jsstring

datatype pmode = MValue | MFirst | MSep | MKeyFirst | MKey | MColon | MDone json

fun deliver :: "json \<Rightarrow> frame list \<Rightarrow> (frame list \<times> pmode) option" where
  "deliver v [] = Some ([], MDone v)"
| "deliver v (FArr acc # st) = Some (FArr (v # acc) # st, MSep)"
| "deliver v (FKey kvs k # st) = Some (FObj ((k, v) # kvs) # st, MSep)"
| "deliver v (FObj kvs # st) = None"

definition open_or_value :: "tok \<Rightarrow> frame list \<Rightarrow> (frame list \<times> pmode) option" where
  "open_or_value t st =
     (case t of
        TLBrack \<Rightarrow> Some (FArr [] # st, MFirst)
      | TLBrace \<Rightarrow> Some (FObj [] # st, MKeyFirst)
      | TStr s \<Rightarrow> deliver (JStr s) st
      | TWord w \<Rightarrow> (case word_value w of None \<Rightarrow> None | Some v \<Rightarrow> deliver v st)
      | _ \<Rightarrow> None)"

definition close_arr :: "frame list \<Rightarrow> (frame list \<times> pmode) option" where
  "close_arr st = (case st of FArr acc # st' \<Rightarrow> deliver (JArr (rev acc)) st' | _ \<Rightarrow> None)"

definition close_obj :: "frame list \<Rightarrow> (frame list \<times> pmode) option" where
  "close_obj st = (case st of FObj kvs # st' \<Rightarrow> deliver (JObj (rev kvs)) st' | _ \<Rightarrow> None)"

definition expect_key :: "tok \<Rightarrow> frame list \<Rightarrow> (frame list \<times> pmode) option" where
  "expect_key t st =
     (case (t, st) of
        (TStr k, FObj kvs # st') \<Rightarrow> Some (FKey kvs k # st', MColon)
      | _ \<Rightarrow> None)"

fun pstep :: "pmode \<Rightarrow> frame list \<Rightarrow> tok \<Rightarrow> (frame list \<times> pmode) option" where
  "pstep MValue st t = open_or_value t st"
| "pstep MFirst st t = (if t = TRBrack then close_arr st else open_or_value t st)"
| "pstep MSep st t =
     (case st of
        FArr acc # st' \<Rightarrow>
          (if t = TComma then Some (st, MValue)
           else if t = TRBrack then close_arr st else None)
      | FObj kvs # st' \<Rightarrow>
          (if t = TComma then Some (st, MKey)
           else if t = TRBrace then close_obj st else None)
      | _ \<Rightarrow> None)"
| "pstep MKeyFirst st t = (if t = TRBrace then close_obj st else expect_key t st)"
| "pstep MKey st t = expect_key t st"
| "pstep MColon st t = (if t = TColon then Some (st, MValue) else None)"
| "pstep (MDone v) st t = None"

fun run_parser :: "pmode \<Rightarrow> frame list \<Rightarrow> tok list \<Rightarrow> json option" where
  "run_parser m st [] = (case m of MDone v \<Rightarrow> Some v | _ \<Rightarrow> None)"
| "run_parser m st (t # ts) =
     (case pstep m st t of
        None \<Rightarrow> None
      | Some (st', m') \<Rightarrow> run_parser m' st' ts)"

definition JSON_parse :: "jsstring \<Rightarrow> json option" where
  \<comment> \<open>\<open>None\<close> is the SyntaxError\<close>
  "JSON_parse s = (case lex s of None \<Rightarrow> None | Some ts \<Rightarrow> run_parser MValue [] ts)"

fun String_js :: "(jsstring \<Rightarrow> jsstring) \<Rightarrow> json \<Rightarrow> jsstring option" where
  \<comment> \<open>\<open>None\<close> is the TypeError of an object whose own \<^verbatim>\<open>toString\<close> property is not
      callable; inside an array, \<^verbatim>\<open>join\<close> turns null into the empty string\<close>
  "String_js nf JNull = Some (str ''null'')"
| "String_js nf (JBool b) = Some (if b then str ''true'' else str ''false'')"
| "String_js nf (JNum w) = Some (nf w)"
| "String_js nf (JStr s) = Some s"
| "String_js nf (JArr xs) =
     map_option (join (str '',''))
       (those (map (\<lambda>x. if x = JNull then Some [] else String_js nf x) xs))"
| "String_js nf (JObj kvs) =
     (if str ''toString'' \<in> fst ` set kvs then None else Some (str ''[object Object]''))"


section \<open>Field parsing (utils/config.js, parseYamlValue and parseYamlArrayValue)\<close>

datatype yaml_value = Scalar jsstring | ArrayOf "jsstring list"

text \<open>
  \<open>None\<close> is \<^verbatim>\<open>null\<close>. The conditions \<^verbatim>\<open>!value\<close> of the callers hold for \<^verbatim>\<open>null\<close> and for the
  empty string; an array, also the empty one, is truthy.
\<close>

fun falsy :: "yaml_value option \<Rightarrow> bool" where
  "falsy None = True"
| "falsy (Some (Scalar s)) = (s = [])"
| "falsy (Some (ArrayOf vs)) = False"

text \<open>
  The pattern is \<^verbatim>\<open>^<field>:\s*(.+)$\<close> with flag m, for the field names \<^verbatim>\<open>release\<close>,
  \<^verbatim>\<open>backport\<close> and \<^verbatim>\<open>needs_feature_branch\<close>, which have no special character.
  \<open>value_at\<close> gives the capture at one position, for the text \<open>r\<close> after the colon:
  the greedy \<^verbatim>\<open>\s*\<close> runs over line ends too, and the capture is the rest of the line of
  the first character that is not white space. When only white space follows to the end
  of the input, the engine backtracks and captures the last character in it that is not a
  line terminator.
\<close>

definition value_at :: "jsstring \<Rightarrow> jsstring option" where
  "value_at r =
     (let r' = dropWhile is_ws r in
      if r' \<noteq> [] then Some (takeWhile (\<lambda>c. \<not> is_lt c) r')
      else (case dropWhile is_lt (rev r) of [] \<Rightarrow> None | c # _ \<Rightarrow> Some [c]))"

fun field_match :: "jsstring \<Rightarrow> bool \<Rightarrow> jsstring \<Rightarrow> jsstring option" where
  \<comment> \<open>\<open>key\<close> is the field name with its colon; \<open>bol\<close> says that the position starts a line\<close>
  "field_match key bol [] = None"
| "field_match key bol (c # cs) =
     (if bol \<and> prefix key (c # cs) then
        (case value_at (drop (length key) (c # cs)) of
           Some m \<Rightarrow> Some m
         | None \<Rightarrow> field_match key (is_lt c) cs)
      else field_match key (is_lt c) cs)"

fun strip_comment :: "jsstring \<Rightarrow> jsstring" where
  \<comment> \<open>\<^verbatim>\<open>replace(/#.*$/, '')\<close>: from the first \<^verbatim>\<open>#\<close> with no line terminator after it\<close>
  "strip_comment [] = []"
| "strip_comment (c # cs) =
     (if c = 0x23 \<and> \<not> list_ex is_lt cs then [] else c # strip_comment cs)"

definition is_quote :: "cu \<Rightarrow> bool" where
  "is_quote c = (c = 0x22 \<or> c = 0x27)"

definition strip_quotes :: "jsstring \<Rightarrow> jsstring" where
  \<comment> \<open>\<^verbatim>\<open>replace(/^["']|["']$/g, '')\<close>: a quote at the start is removed, and a quote at the
      end of what follows is removed\<close>
  "strip_quotes s =
     (let t = (case s of [] \<Rightarrow> [] | c # cs \<Rightarrow> if is_quote c then cs else s)
      in if t \<noteq> [] \<and> is_quote (last t) then butlast t else t)"

fun normalize_quotes :: "jsstring \<Rightarrow> jsstring"
  and normalize_inside :: "jsstring \<Rightarrow> jsstring"
where
  \<comment> \<open>\<^verbatim>\<open>replace(/'([^']*)'/g, '"$1"')\<close>: each pair of single quotes becomes double quotes\<close>
  "normalize_quotes [] = []"
| "normalize_quotes (c # cs) =
     (if c = 0x27 \<and> 0x27 \<in> set cs then 0x22 # normalize_inside cs
      else c # normalize_quotes cs)"
| "normalize_inside [] = []"
| "normalize_inside (c # cs) =
     (if c = 0x27 then 0x22 # normalize_quotes cs else c # normalize_inside cs)"

definition parseYamlArrayValue :: "(jsstring \<Rightarrow> jsstring) \<Rightarrow> jsstring \<Rightarrow> jsstring list option" where
  \<comment> \<open>both exceptions of the try block, and a parsed value that is no array, give \<^verbatim>\<open>null\<close>\<close>
  "parseYamlArrayValue nf arrayString =
     (case JSON_parse (normalize_quotes arrayString) of
        None \<Rightarrow> None
      | Some (JArr items) \<Rightarrow>
          (case those (map (String_js nf) items) of
             None \<Rightarrow> None
           | Some ss \<Rightarrow> Some (filter (\<lambda>item. length item > 0) (map trim ss)))
      | Some _ \<Rightarrow> None)"

definition rawValue :: "jsstring \<Rightarrow> jsstring \<Rightarrow> jsstring option" where
  \<comment> \<open>the local \<^verbatim>\<open>rawValue\<close> of parseYamlValue, \<open>None\<close> when the pattern has no match\<close>
  "rawValue yamlContent field =
     (case field_match (field @ str '':'') True yamlContent of
        None \<Rightarrow> None
      | Some m \<Rightarrow> Some (trim (strip_comment (trim m))))"

definition array_syntax :: "jsstring \<Rightarrow> bool" where
  "array_syntax v = (startsWith v (str ''['') \<and> endsWith v (str '']''))"

definition parseYamlValue :: "(jsstring \<Rightarrow> jsstring) \<Rightarrow> jsstring \<Rightarrow> jsstring \<Rightarrow> yaml_value option" where
  "parseYamlValue nf yamlContent field =
     (if yamlContent = [] then None
      else case rawValue yamlContent field of
        None \<Rightarrow> None
      | Some v \<Rightarrow>
          if v = [] then None
          else if array_syntax v then map_option ArrayOf (parseYamlArrayValue nf v)
          else (let u = strip_quotes v in if u = [] then None else Some (Scalar u)))"

section \<open>Options and validation (utils/config.js)\<close>

record options =
  dryRun :: bool
  acceptedReleases :: "jsstring list option"
  acceptedBackports :: "jsstring list option"
  enableFeatureBranch :: bool
  staleDays :: "int option"

definition isDryRun :: "options \<Rightarrow> bool" where
  "isDryRun opts = dryRun opts"

definition getAcceptedReleases :: "options \<Rightarrow> jsstring list" where
  "getAcceptedReleases opts = (case acceptedReleases opts of None \<Rightarrow> [] | Some l \<Rightarrow> l)"

definition getAcceptedBackports :: "options \<Rightarrow> jsstring list" where
  "getAcceptedBackports opts = (case acceptedBackports opts of None \<Rightarrow> [] | Some l \<Rightarrow> l)"

datatype validation = Valid bool | ValidEach "(jsstring \<times> bool) list"

definition validateReleaseValue :: "options \<Rightarrow> yaml_value \<Rightarrow> validation" where
  "validateReleaseValue opts v =
     (let accepted = getAcceptedReleases opts in
      case v of
        ArrayOf vs \<Rightarrow> ValidEach (map (\<lambda>x. (x, x \<in> set accepted)) vs)
      | Scalar x \<Rightarrow> Valid (x \<in> set accepted))"

definition validateBackportValue :: "options \<Rightarrow> yaml_value \<Rightarrow> validation" where
  "validateBackportValue opts v =
     (let accepted = getAcceptedBackports opts in
      case v of
        ArrayOf vs \<Rightarrow> ValidEach (map (\<lambda>x. (x, x \<in> set accepted)) vs)
      | Scalar x \<Rightarrow> Valid (x \<in> set accepted))"

definition getInvalidValues :: "validation \<Rightarrow> jsstring list" where
  "getInvalidValues r =
     (case r of
        ValidEach items \<Rightarrow> map fst (filter (\<lambda>item. \<not> snd item) items)
      | Valid b \<Rightarrow> [])"

text \<open>
  getValidValues is called on the result for an array only; its branch for a boolean
  result is not reached from the labelling rules and has no counterpart here.
\<close>

definition getValidValues :: "(jsstring \<times> bool) list \<Rightarrow> jsstring list" where
  "getValidValues items = map fst (filter (\<lambda>item. snd item) items)"


section \<open>Release and backport labels from the YAML block (label-automation.js)\<close>

record label_result =
  labels :: "jsstring list"
  error :: "jsstring option"

definition quoted :: "jsstring \<Rightarrow> jsstring" where
  "quoted v = [0x22] @ v @ [0x22]"

definition processReleaseLabel ::
  "(jsstring \<Rightarrow> jsstring) \<Rightarrow> options \<Rightarrow> jsstring \<Rightarrow> bool \<Rightarrow> label_result" where
  "processReleaseLabel nf opts yamlContent hasExistingLabel =
     (let releaseValue = parseYamlValue nf yamlContent (str ''release'') in
      if falsy releaseValue then \<lparr>labels = [], error = None\<rparr>
      else if hasExistingLabel then \<lparr>labels = [], error = None\<rparr>
      else case releaseValue of
        None \<Rightarrow> \<lparr>labels = [], error = None\<rparr>
      | Some (ArrayOf vs) \<Rightarrow>
          (let validationResult = validateReleaseValue opts (ArrayOf vs);
               invalidValues = getInvalidValues validationResult;
               validValues = (case validationResult of
                                ValidEach items \<Rightarrow> getValidValues items
                              | Valid b \<Rightarrow> [])
           in if length invalidValues > 0 then
                \<lparr>labels = [],
                 error = Some ([0x274C] @ str '' Invalid release values: ''
                   @ join (str '', '') (map quoted invalidValues)
                   @ str ''. Accepted values: ''
                   @ join (str '', '') (getAcceptedReleases opts))\<rparr>
              else if length validValues > 0 then
                \<lparr>labels = map (\<lambda>v. str ''release-'' @ v) validValues, error = None\<rparr>
              else \<lparr>labels = [], error = None\<rparr>)
      | Some (Scalar v) \<Rightarrow>
          (case validateReleaseValue opts (Scalar v) of
             Valid True \<Rightarrow> \<lparr>labels = [str ''release-'' @ v], error = None\<rparr>
           | _ \<Rightarrow>
               \<lparr>labels = [],
                error = Some ([0x274C] @ str '' Invalid release value: '' @ quoted v
                  @ str ''. Accepted values: ''
                  @ join (str '', '') (getAcceptedReleases opts))\<rparr>))"

definition processBackportLabel ::
  "(jsstring \<Rightarrow> jsstring) \<Rightarrow> options \<Rightarrow> jsstring \<Rightarrow> bool \<Rightarrow> label_result" where
  "processBackportLabel nf opts yamlContent hasExistingLabel =
     (let backportValue = parseYamlValue nf yamlContent (str ''backport'') in
      if falsy backportValue then \<lparr>labels = [], error = None\<rparr>
      else if hasExistingLabel then \<lparr>labels = [], error = None\<rparr>
      else case backportValue of
        None \<Rightarrow> \<lparr>labels = [], error = None\<rparr>
      | Some (ArrayOf vs) \<Rightarrow>
          (let validationResult = validateBackportValue opts (ArrayOf vs);
               invalidValues = getInvalidValues validationResult;
               validValues = (case validationResult of
                                ValidEach items \<Rightarrow> getValidValues items
                              | Valid b \<Rightarrow> [])
           in if length invalidValues > 0 then
                \<lparr>labels = [],
                 error = Some ([0x274C] @ str '' Invalid backport values: ''
                   @ join (str '', '') (map quoted invalidValues)
                   @ str ''. Accepted values: ''
                   @ join (str '', '') (getAcceptedBackports opts))\<rparr>
              else if length validValues > 0 then
                \<lparr>labels = map (\<lambda>v. str ''backport-'' @ v) validValues, error = None\<rparr>
              else \<lparr>labels = [], error = None\<rparr>)
      | Some (Scalar v) \<Rightarrow>
          (case validateBackportValue opts (Scalar v) of
             Valid True \<Rightarrow> \<lparr>labels = [str ''backport-'' @ v], error = None\<rparr>
           | _ \<Rightarrow>
               \<lparr>labels = [],
                error = Some ([0x274C] @ str '' Invalid backport value: '' @ quoted v
                  @ str ''. Accepted values: ''
                  @ join (str '', '') (getAcceptedBackports opts))\<rparr>))"

definition hasExistingReleaseLabel :: "jsstring list \<Rightarrow> bool" where
  "hasExistingReleaseLabel currentLabels =
     list_ex (\<lambda>label. startsWith label (str ''release-'')) currentLabels"

definition hasExistingBackportLabel :: "jsstring list \<Rightarrow> bool" where
  "hasExistingBackportLabel currentLabels =
     list_ex (\<lambda>label. startsWith label (str ''backport-'')) currentLabels"

section \<open>Label patterns (utils/github-client.js, hasLabels)\<close>

definition label_check :: "jsstring list \<Rightarrow> jsstring \<Rightarrow> bool" where
  \<comment> \<open>the body of the forEach: a pattern ending in \<^verbatim>\<open>*\<close> is a prefix match\<close>
  "label_check currentLabels labelName =
     (if endsWith labelName (str ''*'') then
        (let pre = butlast labelName in list_ex (\<lambda>label. startsWith label pre) currentLabels)
      else labelName \<in> set currentLabels)"

definition label_checks :: "jsstring list \<Rightarrow> jsstring list \<Rightarrow> (jsstring \<rightharpoonup> bool)" where
  "label_checks currentLabels labelNames =
     foldl (\<lambda>result labelName. result(labelName \<mapsto> label_check currentLabels labelName))
       Map.empty labelNames"

definition truthy_at :: "(jsstring \<rightharpoonup> bool) \<Rightarrow> jsstring \<Rightarrow> bool" where
  \<comment> \<open>reading a property in a condition: a missing one is \<^verbatim>\<open>undefined\<close>, which is falsy\<close>
  "truthy_at m k = (case m k of None \<Rightarrow> False | Some b \<Rightarrow> b)"


section \<open>The repository on GitHub and the client (utils/github-client.js)\<close>

text \<open>
  The REST API is outside the repository. It is modelled as a store with the labels and
  comments of each issue or pull request, the check runs and the activity of the pull
  requests, together with an oracle \<open>faults\<close> that says which request fails and with
  which status and message; requests are counted in \<open>requests\<close>. The \<open>trace\<close> records the
  mutating calls made to the client, in order, also under dry run, where the client only
  logs them. The result object of the running module (\<^verbatim>\<open>this.result\<close>) is part of the
  state. Dates are milliseconds since the epoch; the time stamps that the client puts on
  check runs are left out.
\<close>

datatype js_error = Err (status: "nat option") (message: jsstring)

datatype check_id = DryRunCheckId | CheckId nat

record run_output =
  out_title :: jsstring
  out_summary :: jsstring
  out_text :: jsstring

record check_run =
  check_name :: jsstring
  check_head_sha :: jsstring
  details_url :: jsstring
  check_status :: jsstring
  conclusion :: "jsstring option"
  check_output :: "run_output option"

record comment =
  comment_id :: nat
  comment_body :: jsstring
  comment_created_at :: int

record pull =
  number :: nat
  pr_title :: jsstring
  body :: "jsstring option"
  draft :: bool
  head_sha :: jsstring
  pr_state :: jsstring
  pr_labels :: "jsstring list"
  updated_at :: int
  created_at :: int

datatype call =
    AddLabels nat "jsstring list"
  | CreateCheckRun jsstring jsstring jsstring
  | UpdateCheckRun check_id jsstring jsstring run_output
  | CreateComment nat jsstring
  | DeleteComment nat

record world =
  issue_labels :: "nat \<Rightarrow> jsstring list"
  issue_comments :: "nat \<Rightarrow> comment list"
  check_runs :: "nat \<Rightarrow> check_run option"
  pulls :: "pull list"
  commit_dates :: "nat \<Rightarrow> int option list"
  review_comment_dates :: "nat \<Rightarrow> int list"
  review_dates :: "nat \<Rightarrow> int option list"
  timeline :: "nat \<Rightarrow> (jsstring \<times> int) list"
  next_id :: nat
  clock :: int
  faults :: "nat \<Rightarrow> (nat \<times> jsstring) option"
  requests :: nat
  trace :: "call list"
  labelsAdded :: "jsstring list"
  actions :: "jsstring list"
  result_summary :: jsstring
  processedPRs :: nat
  stalePRsFound :: nat

type_synonym 'a io = "world \<Rightarrow> (js_error + 'a) \<times> world"

definition return :: "'a \<Rightarrow> 'a io" where
  "return x = (\<lambda>w. (Inr x, w))"

definition throw :: "js_error \<Rightarrow> 'a io" where
  "throw e = (\<lambda>w. (Inl e, w))"

definition bind :: "'a io \<Rightarrow> ('a \<Rightarrow> 'b io) \<Rightarrow> 'b io" where
  "bind m f = (\<lambda>w. case m w of (Inl e, w') \<Rightarrow> (Inl e, w') | (Inr x, w') \<Rightarrow> f x w')"

definition try_catch :: "'a io \<Rightarrow> (js_error \<Rightarrow> 'a io) \<Rightarrow> 'a io" where
  "try_catch m h = (\<lambda>w. case m w of (Inl e, w') \<Rightarrow> h e w' | (Inr x, w') \<Rightarrow> (Inr x, w'))"

definition modify :: "(world \<Rightarrow> world) \<Rightarrow> unit io" where
  "modify f = (\<lambda>w. (Inr (), f w))"

definition log_call :: "call \<Rightarrow> unit io" where
  "log_call c = modify (\<lambda>w. w\<lparr>trace := trace w @ [c]\<rparr>)"

definition request :: "(world \<Rightarrow> (js_error + 'a) \<times> world) \<Rightarrow> 'a io" where
  \<comment> \<open>one request to the REST API: it fails when the oracle says so, else acts on the store\<close>
  "request op = (\<lambda>w.
     let n = requests w; w1 = w\<lparr>requests := n + 1\<rparr> in
     case faults w n of
       Some (st, msg) \<Rightarrow> (Inl (Err (Some st) msg), w1)
     | None \<Rightarrow> op w1)"

fun show_nat :: "nat \<Rightarrow> jsstring" where
  "show_nat n = (if n < 10 then [of_nat n + 0x30]
     else show_nat (n div 10) @ [of_nat (n mod 10) + 0x30])"

definition show_int :: "int \<Rightarrow> jsstring" where
  "show_int i = (if i < 0 then 0x2D # show_nat (nat (- i)) else show_nat (nat i))"

definition cross :: jsstring where
  "cross = [0x274C]"

definition siren :: jsstring where
  \<comment> \<open>U+1F6A8 as its two surrogates\<close>
  "siren = [0xD83D, 0xDEA8]"

definition getLabels :: "nat \<Rightarrow> jsstring list io" where
  "getLabels issueNumber = request (\<lambda>w. (Inr (issue_labels w issueNumber), w))"

definition store_addLabels :: "nat \<Rightarrow> jsstring list \<Rightarrow> world \<Rightarrow> world" where
  "store_addLabels n ls w =
     w\<lparr>issue_labels := (issue_labels w)
          (n := issue_labels w n @ filter (\<lambda>l. l \<notin> set (issue_labels w n)) (remdups ls))\<rparr>"

definition handle422Error :: "nat \<Rightarrow> jsstring list \<Rightarrow> jsstring \<Rightarrow> jsstring list io" where
  "handle422Error issueNumber ls action =
     try_catch
       (bind (getLabels issueNumber) (\<lambda>currentLabels.
          let alreadyHasLabels = filter (\<lambda>label. label \<in> set currentLabels) ls in
          if length alreadyHasLabels > 0 then return []
          else throw (Err None (cross @ str '' Failed to '' @ action @ str '' labels [''
                 @ join (str '', '') ls @ str ''] to #'' @ show_nat issueNumber
                 @ str '': One or more labels don't exist in the repository.''))))
       (\<lambda>listError. throw (Err None (cross @ str '' Error checking existing labels on #''
                 @ show_nat issueNumber @ str '': '' @ message listError)))"

definition handleLabelError ::
  "js_error \<Rightarrow> nat \<Rightarrow> jsstring list \<Rightarrow> jsstring \<Rightarrow> jsstring list io" where
  "handleLabelError e issueNumber ls action =
     (if status e = Some 403 then
        throw (Err None (cross @ str '' Permission denied: Unable to '' @ action
          @ str '' labels ['' @ join (str '', '') ls @ str ''] to #'' @ show_nat issueNumber
          @ str ''. Repository administrators should add a CUSTOM_GITHUB_TOKEN secret with appropriate permissions.''))
      else if status e = Some 422 then handle422Error issueNumber ls action
      else throw (Err None (cross @ str '' Unexpected error '' @ action @ str ''ing labels [''
          @ join (str '', '') ls @ str ''] to #'' @ show_nat issueNumber @ str '': ''
          @ message e)))"

definition addLabels :: "options \<Rightarrow> nat \<Rightarrow> jsstring list \<Rightarrow> jsstring list io" where
  \<comment> \<open>the result is the property \<^verbatim>\<open>added\<close> of the returned object, the only one that is read\<close>
  "addLabels opts issueNumber ls =
     bind (log_call (AddLabels issueNumber ls)) (\<lambda>_.
       if isDryRun opts then return ls
       else try_catch
              (bind (request (\<lambda>w. (Inr (), store_addLabels issueNumber ls w))) (\<lambda>_. return ls))
              (\<lambda>e. handleLabelError e issueNumber ls (str ''add'')))"

definition createCheckRun :: "options \<Rightarrow> jsstring \<Rightarrow> jsstring \<Rightarrow> jsstring \<Rightarrow> check_id io" where
  "createCheckRun opts name headSha detailsUrl =
     bind (log_call (CreateCheckRun name headSha detailsUrl)) (\<lambda>_.
       if isDryRun opts then return DryRunCheckId
       else request (\<lambda>w.
         let i = next_id w in
         (Inr (CheckId i),
          w\<lparr>next_id := i + 1,
            check_runs := (check_runs w)(i \<mapsto>
              \<lparr>check_name = name, check_head_sha = headSha, details_url = detailsUrl,
               check_status = str ''in_progress'', conclusion = None,
               check_output = None\<rparr>)\<rparr>)))"

definition store_updateCheckRun ::
  "check_id \<Rightarrow> jsstring \<Rightarrow> jsstring \<Rightarrow> run_output \<Rightarrow> world \<Rightarrow> (js_error + unit) \<times> world" where
  "store_updateCheckRun cid st concl out w =
     (case cid of
        CheckId i \<Rightarrow>
          (case check_runs w i of
             Some cr \<Rightarrow>
               (Inr (), w\<lparr>check_runs := (check_runs w)(i \<mapsto>
                  cr\<lparr>check_status := st, conclusion := Some concl, check_output := Some out\<rparr>)\<rparr>)
           | None \<Rightarrow> (Inl (Err (Some 404) (str ''Not Found'')), w))
      | DryRunCheckId \<Rightarrow> (Inl (Err (Some 404) (str ''Not Found'')), w))"

definition updateCheckRun ::
  "options \<Rightarrow> check_id \<Rightarrow> jsstring \<Rightarrow> jsstring \<Rightarrow> run_output \<Rightarrow> unit io" where
  "updateCheckRun opts checkRunId st concl out =
     bind (log_call (UpdateCheckRun checkRunId st concl out)) (\<lambda>_.
       if isDryRun opts then return ()
       else request (store_updateCheckRun checkRunId st concl out))"

definition createComment :: "options \<Rightarrow> nat \<Rightarrow> jsstring \<Rightarrow> unit io" where
  "createComment opts issueNumber b =
     bind (log_call (CreateComment issueNumber b)) (\<lambda>_.
       if isDryRun opts then return ()
       else request (\<lambda>w.
         let i = next_id w in
         (Inr (),
          w\<lparr>next_id := i + 1,
            issue_comments := (issue_comments w)
              (issueNumber := issue_comments w issueNumber
                 @ [\<lparr>comment_id = i, comment_body = b, comment_created_at = clock w\<rparr>])\<rparr>)))"

definition listComments :: "nat \<Rightarrow> comment list io" where
  "listComments issueNumber = request (\<lambda>w. (Inr (issue_comments w issueNumber), w))"

definition deleteComment :: "options \<Rightarrow> nat \<Rightarrow> unit io" where
  "deleteComment opts commentId =
     bind (log_call (DeleteComment commentId)) (\<lambda>_.
       if isDryRun opts then return ()
       else request (\<lambda>w.
         (Inr (),
          w\<lparr>issue_comments :=
               (\<lambda>n. filter (\<lambda>c. comment_id c \<noteq> commentId) (issue_comments w n))\<rparr>)))"

fun delete_each :: "options \<Rightarrow> comment list \<Rightarrow> unit io" where
  \<comment> \<open>the for loop of cleanupWorkflowComments\<close>
  "delete_each opts [] = return ()"
| "delete_each opts (c # cs) =
     bind (deleteComment opts (comment_id c)) (\<lambda>_. delete_each opts cs)"

definition cleanupWorkflowComments :: "options \<Rightarrow> nat \<Rightarrow> jsstring \<Rightarrow> unit io" where
  "cleanupWorkflowComments opts issueNumber identifier =
     try_catch
       (bind (listComments issueNumber) (\<lambda>comments.
          delete_each opts
            (filter (\<lambda>c. includes_js (comment_body c) identifier) comments)))
       (\<lambda>e. return ())"

section \<open>Label automation (label-automation.js)\<close>

record event_context =
  eventName :: jsstring
  owner :: jsstring
  repo :: jsstring
  runId :: nat

record features =
  triage :: bool
  releaseLabeling :: bool
  backportLabeling :: bool
  featureBranch :: bool
  staleDetection :: bool

definition detectEnabledFeatures :: "event_context \<Rightarrow> options \<Rightarrow> features" where
  "detectEnabledFeatures ctx opts =
     \<lparr>triage = True,
      releaseLabeling = (case acceptedReleases opts of None \<Rightarrow> False | Some l \<Rightarrow> length l > 0),
      backportLabeling = (case acceptedBackports opts of None \<Rightarrow> False | Some l \<Rightarrow> length l > 0),
      featureBranch = enableFeatureBranch opts,
      staleDetection = ((case staleDays opts of None \<Rightarrow> False | Some d \<Rightarrow> d \<noteq> 0)
                        \<or> eventName ctx = str ''schedule'')\<rparr>"

definition detailsUrl :: "event_context \<Rightarrow> jsstring" where
  "detailsUrl ctx = str ''https://github.com/'' @ owner ctx @ str ''/'' @ repo ctx
     @ str ''/actions/runs/'' @ show_nat (runId ctx)"

definition marker_release_backport :: jsstring where
  "marker_release_backport = siren @ str '' YAML Validation Error: release and backport''"

definition marker_feature_branch :: jsstring where
  "marker_feature_branch = siren @ str '' YAML Validation Error: feature branch''"

definition category_outcome :: "label_result \<Rightarrow> jsstring list \<times> jsstring list" where
  \<comment> \<open>what one category adds to \<^verbatim>\<open>validationErrors\<close> and to \<^verbatim>\<open>labelsToAdd\<close>\<close>
  "category_outcome r =
     (if (case error r of None \<Rightarrow> False | Some e \<Rightarrow> e \<noteq> []) then ([the (error r)], [])
      else if length (labels r) > 0 then ([], labels r)
      else ([], []))"

definition validation_outcome ::
  "(jsstring \<Rightarrow> jsstring) \<Rightarrow> options \<Rightarrow> features \<Rightarrow> jsstring \<Rightarrow> jsstring list
     \<Rightarrow> jsstring list \<times> jsstring list" where
  \<comment> \<open>the lists \<^verbatim>\<open>validationErrors\<close> and \<^verbatim>\<open>labelsToAdd\<close> of processReleaseBackportLabeling\<close>
  "validation_outcome nf opts fs yamlContent currentLabels =
     (let rel = (if releaseLabeling fs then
                   category_outcome (processReleaseLabel nf opts yamlContent
                     (hasExistingReleaseLabel currentLabels))
                 else ([], []));
          bp = (if backportLabeling fs then
                  category_outcome (processBackportLabel nf opts yamlContent
                    (hasExistingBackportLabel currentLabels))
                else ([], []))
      in (fst rel @ fst bp, snd rel @ snd bp))"

definition how_to_fix_yaml :: "options \<Rightarrow> jsstring" where
  "how_to_fix_yaml opts =
     str ''```yaml'' @ [0x0A]
     @ str ''release: 1.5    # Valid releases: '' @ join (str '', '') (getAcceptedReleases opts)
     @ [0x0A]
     @ str ''backport: 1.4   # Valid backports: '' @ join (str '', '') (getAcceptedBackports opts)
     @ [0x0A] @ str ''```''"

definition errorComment :: "options \<Rightarrow> jsstring list \<Rightarrow> jsstring" where
  "errorComment opts errors =
     str ''## '' @ marker_release_backport @ [0x0A, 0x0A]
     @ join [0x0A] (map (\<lambda>e. str ''- '' @ e) errors) @ [0x0A, 0x0A]
     @ str ''### How to fix:'' @ [0x0A]
     @ str ''1. Update your PR description YAML block with valid values'' @ [0x0A]
     @ str ''2. The workflow will automatically re-run when you edit the description''
     @ [0x0A, 0x0A]
     @ str ''### Valid YAML format:'' @ [0x0A]
     @ how_to_fix_yaml opts @ [0x0A, 0x0A]
     @ str ''_This comment was posted by the repository automation workflow._''"

definition validationFailedOutput :: "options \<Rightarrow> jsstring list \<Rightarrow> run_output" where
  \<comment> \<open>the output that handleValidationErrors gives to the check run\<close>
  "validationFailedOutput opts errors =
     \<lparr>out_title = str ''YAML Validation Failed'',
      out_summary = str ''Found '' @ show_nat (length errors)
        @ str '' validation error(s) in PR description YAML block.'',
      out_text = join [0x0A] (map (\<lambda>e. str ''- '' @ e) errors) @ [0x0A, 0x0A]
        @ str ''**How to fix:**'' @ [0x0A]
        @ str ''1. Update your PR description YAML block with valid values'' @ [0x0A]
        @ str ''2. The workflow will automatically re-run when you edit the description''
        @ [0x0A, 0x0A]
        @ str ''**Valid YAML format:**'' @ [0x0A]
        @ how_to_fix_yaml opts\<rparr>"

definition handleValidationErrors ::
  "options \<Rightarrow> nat \<Rightarrow> check_id \<Rightarrow> jsstring list \<Rightarrow> unit io" where
  "handleValidationErrors opts prNumber checkRunId errors =
     bind (updateCheckRun opts checkRunId (str ''completed'') (str ''failure'')
             (validationFailedOutput opts errors))
       (\<lambda>_. createComment opts prNumber (errorComment opts errors))"

definition processReleaseBackportLabeling ::
  "(jsstring \<Rightarrow> jsstring) \<Rightarrow> event_context \<Rightarrow> options \<Rightarrow> pull \<Rightarrow> jsstring \<Rightarrow> features \<Rightarrow> unit io" where
  "processReleaseBackportLabeling nf ctx opts prData yamlContent fs =
     (let prNumber = number prData in
      bind (createCheckRun opts (str ''YAML Validation (Release/Backport)'') (head_sha prData)
              (detailsUrl ctx))
        (\<lambda>checkRunId.
          try_catch
            (bind (getLabels prNumber) (\<lambda>currentLabels.
               let outcome = validation_outcome nf opts fs yamlContent currentLabels;
                   validationErrors = fst outcome;
                   labelsToAdd = snd outcome
               in if length validationErrors > 0 then
                    handleValidationErrors opts prNumber checkRunId validationErrors
                  else
                    bind (cleanupWorkflowComments opts prNumber marker_release_backport) (\<lambda>_.
                      if length labelsToAdd > 0 then
                        bind (addLabels opts prNumber labelsToAdd) (\<lambda>added.
                        bind (modify (\<lambda>w. w\<lparr>labelsAdded := labelsAdded w @ added,
                                actions := actions w @ [str ''Added release/backport labels: ''
                                  @ join (str '', '') labelsToAdd]\<rparr>)) (\<lambda>_.
                          updateCheckRun opts checkRunId (str ''completed'') (str ''success'')
                            \<lparr>out_title = str ''YAML Validation Successful'',
                             out_summary = str ''Successfully validated YAML and added ''
                               @ show_nat (length labelsToAdd) @ str '' label(s).'',
                             out_text = str ''**Labels added:**'' @ [0x0A]
                               @ join [0x0A] (map (\<lambda>l. str ''- `'' @ l @ str ''`'') labelsToAdd)
                               @ [0x0A, 0x0A]
                               @ str ''**YAML validation passed** - all values are within accepted ranges.''\<rparr>))
                      else
                        updateCheckRun opts checkRunId (str ''completed'') (str ''success'')
                          \<lparr>out_title = str ''No YAML Validation Required'',
                           out_summary = str ''No release/backport labels to add - validation skipped.'',
                           out_text = str ''This PR does not require any release/backport labels based on the YAML configuration.''\<rparr>)))
            (\<lambda>e.
              bind (updateCheckRun opts checkRunId (str ''completed'') (str ''failure'')
                      \<lparr>out_title = str ''Label Assignment Failed'',
                       out_summary = str ''YAML validation passed but failed to add labels.'',
                       out_text = str ''**Error:** '' @ message e\<rparr>)
                (\<lambda>_. throw e))))"

definition featureBranchErrorComment :: "jsstring \<Rightarrow> jsstring" where
  "featureBranchErrorComment errorMsg =
     str ''## '' @ marker_feature_branch @ [0x0A, 0x0A]
     @ str ''- '' @ errorMsg @ [0x0A, 0x0A]
     @ str ''### How to fix:'' @ [0x0A]
     @ str ''1. Update your PR description YAML block with valid values'' @ [0x0A]
     @ str ''2. The workflow will automatically re-run when you edit the description''
     @ [0x0A, 0x0A]
     @ str ''### Valid YAML format:'' @ [0x0A]
     @ str ''```yaml'' @ [0x0A]
     @ str ''needs_feature_branch: true    # Valid values: true, false (case-insensitive)''
     @ [0x0A]
     @ str ''needs_feature_branch: false   # Quotes are optional: '' @ [0x22] @ str ''true''
     @ [0x22] @ str '', 'false', etc.'' @ [0x0A]
     @ str ''```'' @ [0x0A, 0x0A]
     @ str ''_This comment was posted by the repository automation workflow._''"

definition featureBranchFailedOutput :: "jsstring \<Rightarrow> run_output" where
  \<comment> \<open>the output that handleFeatureBranchValidationError gives to the check run\<close>
  "featureBranchFailedOutput errorMsg =
     \<lparr>out_title = str ''YAML Validation Failed'',
      out_summary = str ''Found validation error in PR description YAML block.'',
      out_text = str ''- '' @ errorMsg @ [0x0A, 0x0A]
        @ str ''**How to fix:**'' @ [0x0A]
        @ str ''1. Update your PR description YAML block with valid values'' @ [0x0A]
        @ str ''2. The workflow will automatically re-run when you edit the description''
        @ [0x0A, 0x0A]
        @ str ''**Valid YAML format:**'' @ [0x0A]
        @ str ''```yaml'' @ [0x0A]
        @ str ''needs_feature_branch: true    # Valid values: true, false (case-insensitive)''
        @ [0x0A]
        @ str ''needs_feature_branch: false   # Quotes are optional: '' @ [0x22]
        @ str ''true'' @ [0x22] @ str '', 'false', etc.'' @ [0x0A]
        @ str ''```''\<rparr>"

definition handleFeatureBranchValidationError ::
  "options \<Rightarrow> nat \<Rightarrow> check_id \<Rightarrow> jsstring \<Rightarrow> unit io" where
  "handleFeatureBranchValidationError opts prNumber checkRunId errorMsg =
     bind (updateCheckRun opts checkRunId (str ''completed'') (str ''failure'')
             (featureBranchFailedOutput errorMsg))
       (\<lambda>_. createComment opts prNumber (featureBranchErrorComment errorMsg))"

definition featureBranchErrorMsg :: "jsstring \<Rightarrow> jsstring" where
  "featureBranchErrorMsg v =
     cross @ str '' Invalid needs_feature_branch value: '' @ quoted v
     @ str ''. Accepted values: true, false (case-insensitive, with optional quotes)''"

definition processFeatureBranchLabeling ::
  "(jsstring \<Rightarrow> jsstring) \<Rightarrow> event_context \<Rightarrow> options \<Rightarrow> pull \<Rightarrow> jsstring \<Rightarrow> unit io" where
  "processFeatureBranchLabeling nf ctx opts prData yamlContent =
     (let prNumber = number prData in
      bind (createCheckRun opts (str ''YAML Validation (Feature Branch)'') (head_sha prData)
              (detailsUrl ctx))
        (\<lambda>checkRunId.
          try_catch
            (bind (getLabels prNumber) (\<lambda>currentLabels.
               if str ''feature-branch'' \<in> set currentLabels then
                 bind (cleanupWorkflowComments opts prNumber marker_feature_branch) (\<lambda>_.
                   updateCheckRun opts checkRunId (str ''completed'') (str ''success'')
                     \<lparr>out_title = str ''Feature Branch Label Already Present'',
                      out_summary = str ''Feature-branch label already exists on this PR - skipping automatic assignment.'',
                      out_text = str ''This PR already has the feature-branch label. Automatic assignment is skipped to preserve manual labeling.''\<rparr>)
               else
                 (let featureBranchValue =
                        parseYamlValue nf yamlContent (str ''needs_feature_branch'') in
                  if falsy featureBranchValue then
                    bind (cleanupWorkflowComments opts prNumber marker_feature_branch) (\<lambda>_.
                      updateCheckRun opts checkRunId (str ''completed'') (str ''success'')
                        \<lparr>out_title = str ''No YAML Validation Required'',
                         out_summary = str ''No needs_feature_branch field found in YAML code blocks - validation skipped.'',
                         out_text = str ''This PR does not contain any needs_feature_branch field that needs validation.''\<rparr>)
                  else case featureBranchValue of
                    Some (Scalar v) \<Rightarrow>
                      (let lowerValue = toLowerCase v in
                       if lowerValue = str ''true'' then
                         bind (addLabels opts prNumber [str ''feature-branch'']) (\<lambda>added.
                         bind (modify (\<lambda>w. w\<lparr>labelsAdded := labelsAdded w @ added,
                                 actions := actions w @ [str ''Added feature-branch label to PR #''
                                   @ show_nat prNumber]\<rparr>)) (\<lambda>_.
                         bind (cleanupWorkflowComments opts prNumber marker_feature_branch) (\<lambda>_.
                           updateCheckRun opts checkRunId (str ''completed'') (str ''success'')
                             \<lparr>out_title = str ''YAML Validation Successful'',
                              out_summary = str ''Successfully validated YAML and added feature-branch label.'',
                              out_text = str ''**Label added:**'' @ [0x0A] @ str ''- `feature-branch`''
                                @ [0x0A, 0x0A]
                                @ str ''**YAML validation passed** - needs_feature_branch value is valid.''\<rparr>)))
                       else if lowerValue = str ''false'' \<or> lowerValue = [] then
                         bind (cleanupWorkflowComments opts prNumber marker_feature_branch) (\<lambda>_.
                           updateCheckRun opts checkRunId (str ''completed'') (str ''success'')
                             \<lparr>out_title = str ''YAML Validation Successful'',
                              out_summary = str ''Successfully validated YAML - no feature-branch label needed.'',
                              out_text = str ''**YAML validation passed** - needs_feature_branch is false or empty, no label added.''\<rparr>)
                       else
                         handleFeatureBranchValidationError opts prNumber checkRunId
                           (featureBranchErrorMsg v))
                  | _ \<Rightarrow>
                      \<comment> \<open>an array has no method \<^verbatim>\<open>toLowerCase\<close>: the call raises a TypeError\<close>
                      throw (Err None (str ''featureBranchValue.toLowerCase is not a function'')))))
            (\<lambda>e.
              bind (updateCheckRun opts checkRunId (str ''completed'') (str ''failure'')
                      \<lparr>out_title = str ''Workflow Execution Failed'',
                       out_summary = str ''An unexpected error occurred during workflow execution.'',
                       out_text = str ''**Error:** '' @ message e @ [0x0A, 0x0A]
                         @ str ''**Troubleshooting:**'' @ [0x0A]
                         @ str ''Check the workflow logs for detailed error information.''\<rparr>)
                (\<lambda>_. throw e))))"

definition labelAutomation_execute ::
  "(jsstring \<Rightarrow> jsstring) \<Rightarrow> event_context \<Rightarrow> options \<Rightarrow> features \<Rightarrow> pull option \<Rightarrow> unit io" where
  \<comment> \<open>execute of LabelAutomation, from the pull request that extractPRData returns
      (\<open>None\<close> when there is none); the outer catch logs the error and raises it again\<close>
  "labelAutomation_execute nf ctx opts fs prDataOpt =
     (case prDataOpt of
        None \<Rightarrow> return ()
      | Some prData \<Rightarrow>
          if draft prData then return ()
          else
            (let yamlContent =
                   parseYamlFromText (case body prData of None \<Rightarrow> [] | Some b \<Rightarrow> b) in
             if yamlContent = None \<or> yamlContent = Some [] then
               bind (if featureBranch fs then
                       cleanupWorkflowComments opts (number prData) marker_feature_branch
                     else return ()) (\<lambda>_.
                 if releaseLabeling fs \<or> backportLabeling fs then
                   cleanupWorkflowComments opts (number prData) marker_release_backport
                 else return ())
             else
               bind (if releaseLabeling fs \<or> backportLabeling fs then
                       processReleaseBackportLabeling nf ctx opts prData (the yamlContent) fs
                     else return ()) (\<lambda>_.
                 if featureBranch fs then
                   processFeatureBranchLabeling nf ctx opts prData (the yamlContent)
                 else return ())))"

section \<open>Smart labelling of pull requests (triage-management.js)\<close>

definition hasLabels :: "nat \<Rightarrow> jsstring list \<Rightarrow> (jsstring \<rightharpoonup> bool) io" where
  "hasLabels issueNumber labelNames =
     bind (getLabels issueNumber) (\<lambda>currentLabels.
       return (label_checks currentLabels labelNames))"

definition handleReadyForReviewLabel :: "options \<Rightarrow> nat \<Rightarrow> bool \<Rightarrow> unit io" where
  "handleReadyForReviewLabel opts prNumber hasLabel =
     (if \<not> hasLabel then
        bind (addLabels opts prNumber [str ''ready for review'']) (\<lambda>added.
          if length added > 0 then
            modify (\<lambda>w. w\<lparr>labelsAdded := labelsAdded w @ added,
              actions := actions w @ [str ''Added '' @ quoted (str ''ready for review'')
                @ str '' label to PR #'' @ show_nat prNumber
                @ str '' (has release label, not draft)'']\<rparr>)
          else return ())
      else return ())"

definition handleTriageLabel :: "options \<Rightarrow> nat \<Rightarrow> bool \<Rightarrow> bool \<Rightarrow> unit io" where
  "handleTriageLabel opts prNumber hasLabel hasReleaseLabel =
     (if \<not> hasLabel then
        bind (addLabels opts prNumber [str ''triage'']) (\<lambda>added.
          if length added > 0 then
            (let reason = (if \<not> hasReleaseLabel then str ''no release/backport label''
                           else str ''is draft'') in
             modify (\<lambda>w. w\<lparr>labelsAdded := labelsAdded w @ added,
               actions := actions w @ [str ''Added triage label to PR #'' @ show_nat prNumber
                 @ str '' ('' @ reason @ str '')'']\<rparr>))
          else return ())
      else return ())"

definition yaml_field_present :: "(jsstring \<Rightarrow> jsstring) \<Rightarrow> jsstring option \<Rightarrow> jsstring \<Rightarrow> bool" where
  \<comment> \<open>the truth value of \<^verbatim>\<open>yamlContent && parseYamlValue(yamlContent, field)\<close>\<close>
  "yaml_field_present nf yamlContent field =
     (case yamlContent of
        None \<Rightarrow> False
      | Some y \<Rightarrow> y \<noteq> [] \<and> \<not> falsy (parseYamlValue nf y field))"

definition handlePullRequestEvent :: "(jsstring \<Rightarrow> jsstring) \<Rightarrow> options \<Rightarrow> pull \<Rightarrow> unit io" where
  \<comment> \<open>the sleep of ten seconds before the labels are read has no counterpart\<close>
  "handlePullRequestEvent nf opts prData =
     (let prNumber = number prData in
      if draft prData then return ()
      else
        try_catch
          (bind (getLabels prNumber) (\<lambda>currentLabels.
           bind (hasLabels prNumber
                   [str ''release *'', str ''backport *'', str ''triage'', str ''ready for review''])
             (\<lambda>labelChecks.
               let hasReleaseLabel = truthy_at labelChecks (str ''release *'');
                   hasBackportLabel = truthy_at labelChecks (str ''backport *'');
                   hasTriageLabel = truthy_at labelChecks (str ''triage'');
                   hasReadyForReviewLabel = truthy_at labelChecks (str ''ready for review'');
                   yamlContent =
                     parseYamlFromText (case body prData of None \<Rightarrow> [] | Some b \<Rightarrow> b);
                   hasReleaseYaml = yaml_field_present nf yamlContent (str ''release'');
                   hasBackportYaml = yaml_field_present nf yamlContent (str ''backport'')
               in if (hasReleaseLabel \<or> hasReleaseYaml) \<and> \<not> draft prData then
                    handleReadyForReviewLabel opts prNumber hasReadyForReviewLabel
                  else if \<not> hasBackportLabel \<and> \<not> hasBackportYaml then
                    handleTriageLabel opts prNumber hasTriageLabel
                      (hasReleaseLabel \<or> hasReleaseYaml)
                  else return ())))
          (\<lambda>e.
            bind (modify (\<lambda>w. w\<lparr>result_summary := str ''Failed to process PR #''
                    @ show_nat prNumber @ str '': '' @ message e\<rparr>))
              (\<lambda>_. throw e)))"

section \<open>Stale detection (stale-detection.js)\<close>

text \<open>
  The numbers are integers that a double holds exactly; the store gives whole lists (the
  pages of the API are not modelled) and every date it gives is a valid one.
\<close>

definition effective_staleDays :: "options \<Rightarrow> int" where
  \<comment> \<open>\<^verbatim>\<open>this.config.getStaleDays() || 1\<close>\<close>
  "effective_staleDays opts =
     (case staleDays opts of None \<Rightarrow> 1 | Some d \<Rightarrow> if d = 0 then 1 else d)"

definition staleThresholdMs :: "options \<Rightarrow> int" where
  "staleThresholdMs opts = effective_staleDays opts * 24 * 60 * 60 * 1000"

definition with_labels :: "world \<Rightarrow> pull \<Rightarrow> pull" where
  "with_labels w p = p\<lparr>pr_labels := issue_labels w (number p)\<rparr>"

definition getPR :: "nat \<Rightarrow> pull io" where
  "getPR prNumber = request (\<lambda>w.
     case find (\<lambda>p. number p = prNumber) (pulls w) of
       Some p \<Rightarrow> (Inr (with_labels w p), w)
     | None \<Rightarrow> (Inl (Err (Some 404) (str ''Not Found'')), w))"

definition listOpenPRs :: "pull list io" where
  "listOpenPRs = request (\<lambda>w.
     (Inr (map (with_labels w) (filter (\<lambda>p. pr_state p = str ''open'') (pulls w))), w))"

definition listPRCommits :: "nat \<Rightarrow> int option list io" where
  \<comment> \<open>of each commit, the date of the committer when the commit has one\<close>
  "listPRCommits prNumber =
     try_catch (request (\<lambda>w. (Inr (commit_dates w prNumber), w))) (\<lambda>e. return [])"

definition listPRReviewComments :: "nat \<Rightarrow> int list io" where
  "listPRReviewComments prNumber =
     try_catch (request (\<lambda>w. (Inr (review_comment_dates w prNumber), w))) (\<lambda>e. return [])"

definition listPRReviews :: "nat \<Rightarrow> int option list io" where
  "listPRReviews prNumber =
     try_catch (request (\<lambda>w. (Inr (review_dates w prNumber), w))) (\<lambda>e. return [])"

definition listTimelineEvents :: "nat \<Rightarrow> (jsstring \<times> int) list io" where
  "listTimelineEvents issueNumber =
     try_catch (request (\<lambda>w. (Inr (timeline w issueNumber), w))) (\<lambda>e. return [])"

definition present_dates :: "int option list \<Rightarrow> int list" where
  "present_dates ds = concat (map (\<lambda>d. case d of None \<Rightarrow> [] | Some t \<Rightarrow> [t]) ds)"

definition getLastActivityDate :: "nat \<Rightarrow> int io" where
  "getLastActivityDate prNumber =
     bind (try_catch (bind (getPR prNumber) (\<lambda>prDetails. return [updated_at prDetails]))
             (\<lambda>e. return [])) (\<lambda>a1.
     bind (listPRCommits prNumber) (\<lambda>commits.
     bind (try_catch (bind (listComments prNumber) (\<lambda>comments.
                        return (map comment_created_at comments)))
             (\<lambda>e. return [])) (\<lambda>a3.
     bind (listPRReviewComments prNumber) (\<lambda>reviewComments.
     bind (listPRReviews prNumber) (\<lambda>reviews.
     bind (listTimelineEvents prNumber) (\<lambda>events.
       let activities = a1 @ present_dates commits @ a3 @ reviewComments
             @ present_dates reviews
             @ map snd (filter (\<lambda>ev. fst ev = str ''labeled'' \<or> fst ev = str ''unlabeled'') events)
       in case activities of
            a # as \<Rightarrow> return (fold max as a)
          | [] \<Rightarrow>
              try_catch (bind (getPR prNumber) (\<lambda>prDetails. return (created_at prDetails)))
                (\<lambda>e w. (Inr (clock w), w))))))))"

definition markPRAsStale :: "options \<Rightarrow> nat \<Rightarrow> int \<Rightarrow> unit io" where
  \<comment> \<open>the catch logs the error and raises it again\<close>
  "markPRAsStale opts prNumber hoursSinceActivity =
     bind (addLabels opts prNumber [str ''stale'']) (\<lambda>added.
       if length added > 0 then
         modify (\<lambda>w. w\<lparr>labelsAdded := labelsAdded w @ added,
           actions := actions w @ [str ''Added stale label to PR #'' @ show_nat prNumber
             @ str '' (inactive for '' @ show_int hoursSinceActivity @ str '' hours)''],
           stalePRsFound := stalePRsFound w + 1\<rparr>)
       else return ())"

definition processPR :: "options \<Rightarrow> pull \<Rightarrow> int \<Rightarrow> unit io" where
  "processPR opts pr now =
     (let prNumber = number pr in
      if draft pr then return ()
      else if list_ex (\<lambda>label. label = str ''stale'') (pr_labels pr) then return ()
      else
        bind (getLastActivityDate prNumber) (\<lambda>lastActivity.
          let timeSinceLastActivity = now - lastActivity;
              hoursSinceActivity = timeSinceLastActivity div (1000 * 60 * 60)
          in if timeSinceLastActivity > staleThresholdMs opts then
               markPRAsStale opts prNumber hoursSinceActivity
             else return ()))"

fun process_each :: "options \<Rightarrow> int \<Rightarrow> pull list \<Rightarrow> unit io" where
  \<comment> \<open>the loop of execute: an error of one pull request is logged and the loop goes on\<close>
  "process_each opts now [] = return ()"
| "process_each opts now (pr # prs) =
     bind (try_catch (processPR opts pr now) (\<lambda>e. return ())) (\<lambda>_. process_each opts now prs)"

definition staleDetection_execute :: "options \<Rightarrow> unit io" where
  "staleDetection_execute opts = (\<lambda>w0.
     bind listOpenPRs (\<lambda>pullRequests.
     bind (modify (\<lambda>w. w\<lparr>processedPRs := length pullRequests\<rparr>)) (\<lambda>_.
       process_each opts (clock w0) pullRequests)) w0)"

section \<open>A small repository for the examples\<close>

definition quiet_world :: world where
  \<comment> \<open>no labels, comments or pull requests yet, and an API that answers every request\<close>
  "quiet_world =
     \<lparr>issue_labels = (\<lambda>_. []), issue_comments = (\<lambda>_. []), check_runs = Map.empty,
      pulls = [], commit_dates = (\<lambda>_. []), review_comment_dates = (\<lambda>_. []),
      review_dates = (\<lambda>_. []), timeline = (\<lambda>_. []), next_id = 1, clock = 0,
      faults = (\<lambda>_. None), requests = 0, trace = [], labelsAdded = [], actions = [],
      result_summary = [], processedPRs = 0, stalePRsFound = 0\<rparr>"

definition sample_pull :: "jsstring \<Rightarrow> pull" where
  "sample_pull b =
     \<lparr>number = 7, pr_title = str ''Fix the parser'', body = Some b, draft = False,
      head_sha = str ''abc123'', pr_state = str ''open'', pr_labels = [],
      updated_at = 0, created_at = 0\<rparr>"

definition sample_context :: event_context where
  "sample_context =
     \<lparr>eventName = str ''pull_request'', owner = str ''octo'', repo = str ''demo'', runId = 42\<rparr>"

definition sample_options :: options where
  "sample_options =
     \<lparr>dryRun = False, acceptedReleases = Some [str ''1.5'', str ''1.6''],
      acceptedBackports = Some [str ''1.4''], enableFeatureBranch = True, staleDays = Some 2\<rparr>"

definition body_with_release :: jsstring where
  \<comment> \<open>a description with a YAML block that names a release\<close>
  "body_with_release = str ''Targets 1.5'' @ [0x0A] @ str ''```yaml'' @ [0x0A]
     @ str ''release: 1.5'' @ [0x0A] @ str ''```'' @ [0x0A]"


section \<open>What a run leaves untouched\<close>

definition adds_no_label :: "world \<Rightarrow> world \<Rightarrow> bool" where
  \<comment> \<open>from the first state to the second: the labels in the repository and the labels
     recorded in the result are the same, and the client was not asked to add a label\<close>
  "adds_no_label w w' \<longleftrightarrow>
     issue_labels w' = issue_labels w \<and> labelsAdded w' = labelsAdded w
     \<and> (\<forall>n ls. AddLabels n ls \<in> set (trace w') \<longrightarrow> AddLabels n ls \<in> set (trace w))"

section \<open>Properties of the field parser and of the label rules\<close>










text \<open>
  Claim C8 says that a field with array syntax that fails to parse gives a result distinct
  from the one for a missing field. In the source both are \<^verbatim>\<open>null\<close>: the field
  \<^verbatim>\<open>release: [abc]\<close> and a block without a release field give the same result.
\<close>

theorem malformed_array_counterexample:
  "rawValue (str ''release: [abc]'') (str ''release'') = Some (str ''[abc]'')
   \<and> array_syntax (str ''[abc]'')
   \<and> JSON_parse (normalize_quotes (str ''[abc]'')) = None
   \<and> rawValue (str ''backport: 1.4'') (str ''release'') = None
   \<and> parseYamlValue id (str ''release: [abc]'') (str ''release'')
       = parseYamlValue id (str ''backport: 1.4'') (str ''release'')"
proof -
  have m1: "rawValue (str ''release: [abc]'') (str ''release'') = Some (str ''[abc]'')"
    by code_simp
  have m2: "array_syntax (str ''[abc]'')" by code_simp
  have m3: "JSON_parse (normalize_quotes (str ''[abc]'')) = None" by code_simp
  have m4: "rawValue (str ''backport: 1.4'') (str ''release'') = None" by code_simp
  have m5: "parseYamlValue id (str ''release: [abc]'') (str ''release'') = None" by code_simp
  have m6: "parseYamlValue id (str ''backport: 1.4'') (str ''release'') = None" by code_simp
  from m1 m2 m3 m4 m5 m6 show ?thesis by simp
qed

text \<open>
  Claim C8, amended. A field whose value has array syntax and fails to parse gives
  \<^verbatim>\<open>null\<close>, which is also the result when the field is missing from the block: the parser
  has no result that tells the two apart.
\<close>

theorem malformed_array_is_null:
  assumes "rawValue yaml field = Some v" and "array_syntax v"
    and "parseYamlArrayValue nf v = None" and "rawValue yaml' field = None"
  shows "parseYamlValue nf yaml field = None \<and> parseYamlValue nf yaml' field = None"
  using assms by (auto simp: parseYamlValue_def)

theorem malformed_array_is_null_witness:
  "rawValue (str ''release: [1.5,]'') (str ''release'') = Some (str ''[1.5,]'')
   \<and> array_syntax (str ''[1.5,]'')
   \<and> parseYamlArrayValue id (str ''[1.5,]'') = None
   \<and> rawValue (str ''needs_feature_branch: true'') (str ''release'') = None
   \<and> parseYamlValue id (str ''release: [1.5,]'') (str ''release'') = None
   \<and> parseYamlValue id (str ''needs_feature_branch: true'') (str ''release'') = None"
proof -
  have h1: "rawValue (str ''release: [1.5,]'') (str ''release'') = Some (str ''[1.5,]'')"
    by code_simp
  have h2: "array_syntax (str ''[1.5,]'')" by code_simp
  have h3: "parseYamlArrayValue id (str ''[1.5,]'') = None" by code_simp
  have h4: "rawValue (str ''needs_feature_branch: true'') (str ''release'') = None" by code_simp
  from malformed_array_is_null [OF h1 h2 h3 h4] h1 h2 h3 h4 show ?thesis by blast
qed

lemma strip_quotes_both:
  "is_quote a \<Longrightarrow> is_quote b \<Longrightarrow> strip_quotes (a # m @ [b]) = m"
  by (simp add: strip_quotes_def)

lemma strip_quotes_leading:
  "is_quote a \<Longrightarrow> m = [] \<or> \<not> is_quote (last m) \<Longrightarrow> strip_quotes (a # m) = m"
  by (auto simp: strip_quotes_def)

lemma strip_quotes_trailing:
  "\<not> is_quote a \<Longrightarrow> is_quote b \<Longrightarrow> strip_quotes (a # m @ [b]) = a # m"
  by (simp add: strip_quotes_def)

lemma strip_quotes_none:
  "\<not> is_quote a \<Longrightarrow> \<not> is_quote (last (a # m)) \<Longrightarrow> strip_quotes (a # m) = a # m"
  by (auto simp: strip_quotes_def split: if_splits)

lemma scalar_branch:
  assumes "rawValue yaml field = Some v" "v \<noteq> []" "\<not> array_syntax v"
  shows "parseYamlValue nf yaml field =
    (if strip_quotes v = [] then None else Some (Scalar (strip_quotes v)))"
proof -
  from assms(1) have "yaml \<noteq> []" by (auto simp: rawValue_def)
  with assms show ?thesis by (simp add: parseYamlValue_def Let_def)
qed

text \<open>
  Claim C9 says that quotes are stripped only when the leading and the trailing quote
  match. The source removes a quote at the start and a quote at the end independently:
  a value that opens with a double quote and closes with a single quote loses both, and a
  value with an opening quote alone loses it.
\<close>

theorem scalar_quotes_counterexample:
  "parseYamlValue id (str ''release: '' @ [0x22] @ str ''abc'' @ [0x27]) (str ''release'')
     = Some (Scalar (str ''abc''))
   \<and> parseYamlValue id (str ''release: '' @ [0x22] @ str ''abc'') (str ''release'')
     = Some (Scalar (str ''abc''))"
proof
  show "parseYamlValue id (str ''release: '' @ [0x22] @ str ''abc'' @ [0x27]) (str ''release'')
     = Some (Scalar (str ''abc''))" by code_simp
  show "parseYamlValue id (str ''release: '' @ [0x22] @ str ''abc'') (str ''release'')
     = Some (Scalar (str ''abc''))" by code_simp
qed

text \<open>
  Claim C9, amended. For a field value that is not empty and has no array syntax, the
  parser removes one quote character (double or single) at the start if there is one, and
  one quote character at the end if there is one, whether or not the two are the same
  character, and returns the rest as a scalar; when nothing is left the result is
  \<^verbatim>\<open>null\<close>, as for a missing field.
\<close>

theorem scalar_quotes_stripped_independently:
  assumes "rawValue yaml field = Some v" and "v \<noteq> []" and "\<not> array_syntax v"
  shows "(\<forall>a b m. v = a # m @ [b] \<and> is_quote a \<and> is_quote b \<longrightarrow>
            parseYamlValue nf yaml field = (if m = [] then None else Some (Scalar m)))
       \<and> (\<forall>a m. v = a # m \<and> is_quote a \<and> (m = [] \<or> \<not> is_quote (last m)) \<longrightarrow>
            parseYamlValue nf yaml field = (if m = [] then None else Some (Scalar m)))
       \<and> (\<forall>a b m. v = a # m @ [b] \<and> \<not> is_quote a \<and> is_quote b \<longrightarrow>
            parseYamlValue nf yaml field = Some (Scalar (a # m)))
       \<and> (\<not> is_quote (hd v) \<and> \<not> is_quote (last v) \<longrightarrow>
            parseYamlValue nf yaml field = Some (Scalar v))"
proof (intro conjI allI impI)
  fix a b m assume "v = a # m @ [b] \<and> is_quote a \<and> is_quote b"
  then show "parseYamlValue nf yaml field = (if m = [] then None else Some (Scalar m))"
    using scalar_branch [OF assms, of nf] by (simp add: strip_quotes_both)
next
  fix a m assume "v = a # m \<and> is_quote a \<and> (m = [] \<or> \<not> is_quote (last m))"
  then show "parseYamlValue nf yaml field = (if m = [] then None else Some (Scalar m))"
    using scalar_branch [OF assms, of nf] strip_quotes_leading [of a m] by auto
next
  fix a b m assume "v = a # m @ [b] \<and> \<not> is_quote a \<and> is_quote b"
  then show "parseYamlValue nf yaml field = Some (Scalar (a # m))"
    using scalar_branch [OF assms, of nf] by (simp add: strip_quotes_trailing)
next
  assume h: "\<not> is_quote (hd v) \<and> \<not> is_quote (last v)"
  from assms(2) obtain a m where v: "v = a # m" by (cases v) auto
  with h have "strip_quotes v = v" using strip_quotes_none [of a m] by simp
  then show "parseYamlValue nf yaml field = Some (Scalar v)"
    using scalar_branch [OF assms, of nf] assms(2) by simp
qed

theorem scalar_quotes_stripped_independently_witness:
  "rawValue (str ''release: '' @ [0x22] @ str ''abc'' @ [0x27]) (str ''release'')
     = Some (0x22 # str ''abc'' @ [0x27])
   \<and> \<not> array_syntax (0x22 # str ''abc'' @ [0x27])
   \<and> is_quote 0x22 \<and> is_quote 0x27
   \<and> parseYamlValue id (str ''release: '' @ [0x22] @ str ''abc'' @ [0x27]) (str ''release'')
     = Some (Scalar (str ''abc''))"
proof -
  let ?y = "str ''release: '' @ [0x22] @ str ''abc'' @ [0x27]"
  let ?v = "0x22 # str ''abc'' @ [0x27]"
  have r: "rawValue ?y (str ''release'') = Some ?v" by code_simp
  have n: "?v \<noteq> []" by simp
  have a: "\<not> array_syntax ?v" by code_simp
  have q1: "is_quote 0x22" and q2: "is_quote 0x27" by (simp_all add: is_quote_def)
  have ne: "str ''abc'' \<noteq> []" by (simp add: str_def)
  from scalar_quotes_stripped_independently [OF r n a, of id]
  have "\<forall>a b m. ?v = a # m @ [b] \<and> is_quote a \<and> is_quote b \<longrightarrow>
            parseYamlValue id ?y (str ''release'') = (if m = [] then None else Some (Scalar m))"
    by (rule conjunct1)
  then have "?v = 0x22 # str ''abc'' @ [0x27] \<and> is_quote 0x22 \<and> is_quote 0x27 \<longrightarrow>
     parseYamlValue id ?y (str ''release'')
       = (if str ''abc'' = [] then None else Some (Scalar (str ''abc'')))"
    by blast
  with q1 q2 ne have "parseYamlValue id ?y (str ''release'') = Some (Scalar (str ''abc''))"
    by simp
  with r a q1 q2 show ?thesis by blast
qed

lemma release_labels_prefix:
  "l \<in> set (labels (processReleaseLabel nf opts yaml ex)) \<Longrightarrow> prefix (str ''release-'') l"
  by (auto simp: processReleaseLabel_def Let_def
      split: if_splits option.splits yaml_value.splits validation.splits bool.splits)

lemma label_checks_release:
  "truthy_at (label_checks ls
      [str ''release *'', str ''backport *'', str ''triage'', str ''ready for review''])
     (str ''release *'')
   = list_ex (\<lambda>l. prefix (str ''release '') l) ls"
  by (simp add: label_checks_def truthy_at_def label_check_def str_def endsWith_def
      startsWith_def suffix_def)

lemma hyphen_not_space: "prefix (str ''release-'') l \<Longrightarrow> \<not> prefix (str ''release '') l"
  by (auto simp: str_def prefix_def)

lemma release_space_starts_release: "prefix (str ''release '') l \<Longrightarrow> startsWith l (str ''release'')"
  by (auto simp: str_def prefix_def startsWith_def)

text \<open>
  Claim C10. Every label that the release rule proposes starts with \<^verbatim>\<open>release-\<close>, while the
  smart labelling of pull requests looks for release labels with the pattern
  \<^verbatim>\<open>release *\<close>, a prefix match on \<^verbatim>\<open>release\<close> followed by a space. So when every label of the
  pull request that starts with \<^verbatim>\<open>release\<close> is one that the release rule can propose, the
  check for a release label is false.
\<close>

theorem hyphen_labels_not_detected:
  "(\<forall>l \<in> set (labels (processReleaseLabel nf opts yaml ex)). startsWith l (str ''release-''))
   \<and> ((\<forall>l \<in> set currentLabels. startsWith l (str ''release'') \<longrightarrow>
          (\<exists>nf' opts' yaml' ex'. l \<in> set (labels (processReleaseLabel nf' opts' yaml' ex'))))
       \<longrightarrow> \<not> truthy_at (label_checks currentLabels
              [str ''release *'', str ''backport *'', str ''triage'', str ''ready for review''])
            (str ''release *''))"
proof (intro conjI impI ballI)
  fix l assume "l \<in> set (labels (processReleaseLabel nf opts yaml ex))"
  then show "startsWith l (str ''release-'')"
    by (simp add: startsWith_def release_labels_prefix)
next
  assume h: "\<forall>l \<in> set currentLabels. startsWith l (str ''release'') \<longrightarrow>
          (\<exists>nf' opts' yaml' ex'. l \<in> set (labels (processReleaseLabel nf' opts' yaml' ex')))"
  have "\<not> prefix (str ''release '') l" if "l \<in> set currentLabels" for l
  proof
    assume p: "prefix (str ''release '') l"
    then have "startsWith l (str ''release'')" by (rule release_space_starts_release)
    with h that obtain nf' opts' yaml' ex'
      where "l \<in> set (labels (processReleaseLabel nf' opts' yaml' ex'))"
      by blast
    then have "prefix (str ''release-'') l" by (rule release_labels_prefix)
    with p show False using hyphen_not_space by blast
  qed
  then show "\<not> truthy_at (label_checks currentLabels
              [str ''release *'', str ''backport *'', str ''triage'', str ''ready for review''])
            (str ''release *'')"
    by (simp add: label_checks_release list_ex_iff)
qed


theorem hyphen_labels_not_detected_witness:
  "labels (processReleaseLabel id
        \<lparr>dryRun = False, acceptedReleases = Some [str ''1.5''],
         acceptedBackports = None, enableFeatureBranch = False, staleDays = None\<rparr>
        (str ''release: 1.5'') False) = [str ''release-1.5'']
   \<and> startsWith (str ''release-1.5'') (str ''release-'')
   \<and> \<not> truthy_at (label_checks [str ''release-1.5'', str ''triage'']
              [str ''release *'', str ''backport *'', str ''triage'', str ''ready for review''])
            (str ''release *'')"
proof -
  let ?o = "\<lparr>dryRun = False, acceptedReleases = Some [str ''1.5''],
         acceptedBackports = None, enableFeatureBranch = False, staleDays = None\<rparr>"
  have p: "labels (processReleaseLabel id ?o (str ''release: 1.5'') False) = [str ''release-1.5'']"
    by code_simp
  have t: "\<not> startsWith (str ''triage'') (str ''release'')" by code_simp
  have h: "\<forall>l \<in> set [str ''release-1.5'', str ''triage'']. startsWith l (str ''release'') \<longrightarrow>
          (\<exists>nf' opts' yaml' ex'. l \<in> set (labels (processReleaseLabel nf' opts' yaml' ex')))"
  proof (intro ballI impI)
    fix l assume l: "l \<in> set [str ''release-1.5'', str ''triage'']" and s: "startsWith l (str ''release'')"
    with t have "l = str ''release-1.5''" by auto
    with p have "l \<in> set (labels (processReleaseLabel id ?o (str ''release: 1.5'') False))" by simp
    then show "\<exists>nf' opts' yaml' ex'. l \<in> set (labels (processReleaseLabel nf' opts' yaml' ex'))"
      by blast
  qed
  from hyphen_labels_not_detected [of id ?o "str ''release: 1.5''" False "[str ''release-1.5'', str ''triage'']"]
  have a: "\<forall>l \<in> set (labels (processReleaseLabel id ?o (str ''release: 1.5'') False)). startsWith l (str ''release-'')"
    and b: "(\<forall>l \<in> set [str ''release-1.5'', str ''triage'']. startsWith l (str ''release'') \<longrightarrow>
          (\<exists>nf' opts' yaml' ex'. l \<in> set (labels (processReleaseLabel nf' opts' yaml' ex'))))
       \<longrightarrow> \<not> truthy_at (label_checks [str ''release-1.5'', str ''triage'']
              [str ''release *'', str ''backport *'', str ''triage'', str ''ready for review''])
            (str ''release *'')"
    by blast+
  from a p have "startsWith (str ''release-1.5'') (str ''release-'')" by simp
  moreover from b h have "\<not> truthy_at (label_checks [str ''release-1.5'', str ''triage'']
              [str ''release *'', str ''backport *'', str ''triage'', str ''ready for review''])
            (str ''release *'')" by blast
  ultimately show ?thesis using p by blast
qed


section \<open>Properties of the runs against the repository\<close>

lemmas io_defs = bind_def return_def throw_def try_catch_def modify_def log_call_def request_def

lemma createCheckRun_dry:
  "dryRun opts \<Longrightarrow> createCheckRun opts a b c w =
     (Inr DryRunCheckId, w\<lparr>trace := trace w @ [CreateCheckRun a b c]\<rparr>)"
  by (simp add: createCheckRun_def io_defs isDryRun_def)

lemma createCheckRun_ok:
  "\<not> dryRun opts \<Longrightarrow> faults w (requests w) = None \<Longrightarrow> createCheckRun opts a b c w =
     (Inr (CheckId (next_id w)),
      w\<lparr>trace := trace w @ [CreateCheckRun a b c], requests := requests w + 1,
        next_id := next_id w + 1,
        check_runs := (check_runs w)(next_id w \<mapsto>
              \<lparr>check_name = a, check_head_sha = b, details_url = c,
               check_status = str ''in_progress'', conclusion = None,
               check_output = None\<rparr>)\<rparr>)"
  by (simp add: createCheckRun_def io_defs isDryRun_def Let_def)

lemma getLabels_ok:
  "faults w (requests w) = None \<Longrightarrow> getLabels n w =
     (Inr (issue_labels w n), w\<lparr>requests := requests w + 1\<rparr>)"
  by (simp add: getLabels_def io_defs Let_def)

lemma updateCheckRun_dry:
  "dryRun opts \<Longrightarrow> updateCheckRun opts i s c out w =
     (Inr (), w\<lparr>trace := trace w @ [UpdateCheckRun i s c out]\<rparr>)"
  by (simp add: updateCheckRun_def io_defs isDryRun_def)

lemma updateCheckRun_ok:
  "\<not> dryRun opts \<Longrightarrow> faults w (requests w) = None \<Longrightarrow> check_runs w i = Some cr \<Longrightarrow>
   updateCheckRun opts (CheckId i) s c out w =
     (Inr (), w\<lparr>trace := trace w @ [UpdateCheckRun (CheckId i) s c out],
        requests := requests w + 1,
        check_runs := (check_runs w)(i \<mapsto>
           cr\<lparr>check_status := s, conclusion := Some c, check_output := Some out\<rparr>)\<rparr>)"
  by (simp add: updateCheckRun_def io_defs isDryRun_def Let_def store_updateCheckRun_def)

lemma createComment_dry:
  "dryRun opts \<Longrightarrow> createComment opts n b w =
     (Inr (), w\<lparr>trace := trace w @ [CreateComment n b]\<rparr>)"
  by (simp add: createComment_def io_defs isDryRun_def)

lemma createComment_ok:
  "\<not> dryRun opts \<Longrightarrow> faults w (requests w) = None \<Longrightarrow> createComment opts n b w =
     (Inr (), w\<lparr>trace := trace w @ [CreateComment n b], requests := requests w + 1,
        next_id := next_id w + 1,
        issue_comments := (issue_comments w)
              (n := issue_comments w n
                 @ [\<lparr>comment_id = next_id w, comment_body = b, comment_created_at = clock w\<rparr>])\<rparr>)"
  by (simp add: createComment_def io_defs isDryRun_def Let_def)


lemma handleValidationErrors_dry:
  "dryRun opts \<Longrightarrow> handleValidationErrors opts n i errs w =
     (Inr (), w\<lparr>trace := trace w @ [UpdateCheckRun i (str ''completed'') (str ''failure'') (validationFailedOutput opts errs),
         CreateComment n (errorComment opts errs)]\<rparr>)"
  by (simp add: handleValidationErrors_def bind_def updateCheckRun_dry createComment_dry)

lemma handleValidationErrors_ok:
  "\<not> dryRun opts \<Longrightarrow> faults w (requests w) = None \<Longrightarrow> faults w (requests w + 1) = None \<Longrightarrow>
   check_runs w i = Some cr \<Longrightarrow>
   handleValidationErrors opts n (CheckId i) errs w =
     (Inr (), w\<lparr>trace := trace w @ [UpdateCheckRun (CheckId i) (str ''completed'') (str ''failure'') (validationFailedOutput opts errs),
         CreateComment n (errorComment opts errs)],
        requests := requests w + 2,
        check_runs := (check_runs w)(i \<mapsto>
           cr\<lparr>check_status := str ''completed'', conclusion := Some (str ''failure''),
              check_output := Some (validationFailedOutput opts errs)\<rparr>),
        next_id := next_id w + 1,
        issue_comments := (issue_comments w)
              (n := issue_comments w n
                 @ [\<lparr>comment_id = next_id w, comment_body = errorComment opts errs, comment_created_at = clock w\<rparr>])\<rparr>)"
  by (simp add: handleValidationErrors_def bind_def updateCheckRun_ok createComment_ok)

lemma rbl_errors_dry:
  assumes "dryRun opts" "faults w (requests w) = None"
    and "fst (validation_outcome nf opts fs yaml (issue_labels w (number pr))) \<noteq> []"
  shows "processReleaseBackportLabeling nf ctx opts pr yaml fs w =
     (Inr (), w\<lparr>trace := trace w @
        [CreateCheckRun (str ''YAML Validation (Release/Backport)'') (head_sha pr) (detailsUrl ctx),
         UpdateCheckRun DryRunCheckId (str ''completed'') (str ''failure'')
           (validationFailedOutput opts (fst (validation_outcome nf opts fs yaml (issue_labels w (number pr))))),
         CreateComment (number pr) (errorComment opts (fst (validation_outcome nf opts fs yaml (issue_labels w (number pr)))))],
        requests := requests w + 1\<rparr>)"
  using assms
  by (simp add: processReleaseBackportLabeling_def Let_def bind_def try_catch_def createCheckRun_dry
      getLabels_ok handleValidationErrors_dry)

lemma rbl_errors_ok:
  assumes "\<not> dryRun opts" "\<forall>n. faults w n = None"
    and "fst (validation_outcome nf opts fs yaml (issue_labels w (number pr))) \<noteq> []"
  shows "processReleaseBackportLabeling nf ctx opts pr yaml fs w =
     (Inr (), w\<lparr>trace := trace w @
        [CreateCheckRun (str ''YAML Validation (Release/Backport)'') (head_sha pr) (detailsUrl ctx),
         UpdateCheckRun (CheckId (next_id w)) (str ''completed'') (str ''failure'')
           (validationFailedOutput opts (fst (validation_outcome nf opts fs yaml (issue_labels w (number pr))))),
         CreateComment (number pr) (errorComment opts (fst (validation_outcome nf opts fs yaml (issue_labels w (number pr)))))],
        requests := requests w + 4,
        next_id := next_id w + 2,
        check_runs := (check_runs w)(next_id w \<mapsto>
              \<lparr>check_name = str ''YAML Validation (Release/Backport)'', check_head_sha = head_sha pr,
               details_url = detailsUrl ctx,
               check_status = str ''completed'', conclusion = Some (str ''failure''),
               check_output = Some (validationFailedOutput opts (fst (validation_outcome nf opts fs yaml (issue_labels w (number pr)))))\<rparr>),
        issue_comments := (issue_comments w)
              (number pr := issue_comments w (number pr)
                 @ [\<lparr>comment_id = next_id w + 1,
                     comment_body = errorComment opts (fst (validation_outcome nf opts fs yaml (issue_labels w (number pr)))),
                     comment_created_at = clock w\<rparr>])\<rparr>)"
  using assms
  by (simp add: processReleaseBackportLabeling_def Let_def bind_def try_catch_def createCheckRun_ok
      getLabels_ok handleValidationErrors_ok)

lemma deleteComment_dry:
  "dryRun opts \<Longrightarrow> deleteComment opts i w = (Inr (), w\<lparr>trace := trace w @ [DeleteComment i]\<rparr>)"
  by (simp add: deleteComment_def io_defs isDryRun_def)

lemma deleteComment_ok:
  "\<not> dryRun opts \<Longrightarrow> faults w (requests w) = None \<Longrightarrow> deleteComment opts i w =
     (Inr (), w\<lparr>trace := trace w @ [DeleteComment i], requests := requests w + 1,
        issue_comments := (\<lambda>n. filter (\<lambda>c. comment_id c \<noteq> i) (issue_comments w n))\<rparr>)"
  by (simp add: deleteComment_def io_defs isDryRun_def Let_def)

lemma delete_each_dry:
  "dryRun opts \<Longrightarrow> delete_each opts cs w =
     (Inr (), w\<lparr>trace := trace w @ map (\<lambda>c. DeleteComment (comment_id c)) cs\<rparr>)"
  by (induction cs arbitrary: w) (simp_all add: return_def bind_def deleteComment_dry)

lemma delete_each_ok:
  "\<not> dryRun opts \<Longrightarrow> \<forall>n. faults w n = None \<Longrightarrow> delete_each opts cs w =
     (Inr (), w\<lparr>trace := trace w @ map (\<lambda>c. DeleteComment (comment_id c)) cs,
        requests := requests w + length cs,
        issue_comments := (\<lambda>n. filter (\<lambda>c. comment_id c \<notin> comment_id ` set cs) (issue_comments w n))\<rparr>)"
proof (induction cs arbitrary: w)
  case Nil
  then show ?case by (simp add: return_def)
next
  case (Cons c cs)
  let ?w1 = "w\<lparr>trace := trace w @ [DeleteComment (comment_id c)], requests := requests w + 1,
        issue_comments := (\<lambda>n. filter (\<lambda>x. comment_id x \<noteq> comment_id c) (issue_comments w n))\<rparr>"
  have nf1: "\<forall>n. faults ?w1 n = None" using Cons.prems by simp
  have f: "(\<lambda>n. filter (\<lambda>x. comment_id x \<notin> comment_id ` set cs) (filter (\<lambda>x. comment_id x \<noteq> comment_id c) (issue_comments w n)))
     = (\<lambda>n. filter (\<lambda>x. comment_id x \<notin> comment_id ` set (c # cs)) (issue_comments w n))"
    by (auto intro!: ext filter_cong)
  have step: "deleteComment opts (comment_id c) w = (Inr (), ?w1)"
    using Cons.prems by (simp add: deleteComment_ok)
  have "delete_each opts (c # cs) w = delete_each opts cs ?w1"
    by (simp only: delete_each.simps bind_def step prod.case sum.case)
  also have "\<dots> = (Inr (), ?w1\<lparr>trace := trace ?w1 @ map (\<lambda>c. DeleteComment (comment_id c)) cs,
        requests := requests ?w1 + length cs,
        issue_comments := (\<lambda>n. filter (\<lambda>c. comment_id c \<notin> comment_id ` set cs) (issue_comments ?w1 n))\<rparr>)"
    by (rule Cons.IH [OF Cons.prems(1) nf1])
  also have "\<dots> = (Inr (), w\<lparr>trace := trace w @ map (\<lambda>c. DeleteComment (comment_id c)) (c # cs),
        requests := requests w + length (c # cs),
        issue_comments := (\<lambda>n. filter (\<lambda>x. comment_id x \<notin> comment_id ` set (c # cs)) (issue_comments w n))\<rparr>)"
    using f by simp
  finally show ?case .
qed

lemma listComments_ok:
  "faults w (requests w) = None \<Longrightarrow> listComments n w =
     (Inr (issue_comments w n), w\<lparr>requests := requests w + 1\<rparr>)"
  by (simp add: listComments_def io_defs Let_def)

lemma cleanup_dry:
  "dryRun opts \<Longrightarrow> faults w (requests w) = None \<Longrightarrow> cleanupWorkflowComments opts n m w =
     (Inr (), w\<lparr>requests := requests w + 1,
        trace := trace w @ map (\<lambda>c. DeleteComment (comment_id c))
           (filter (\<lambda>c. includes_js (comment_body c) m) (issue_comments w n))\<rparr>)"
  by (simp add: cleanupWorkflowComments_def bind_def try_catch_def listComments_ok delete_each_dry)

lemma cleanup_ok:
  "\<not> dryRun opts \<Longrightarrow> \<forall>k. faults w k = None \<Longrightarrow> cleanupWorkflowComments opts n m w =
     (Inr (), w\<lparr>trace := trace w @ map (\<lambda>c. DeleteComment (comment_id c))
           (filter (\<lambda>c. includes_js (comment_body c) m) (issue_comments w n)),
        requests := requests w + 1 + length (filter (\<lambda>c. includes_js (comment_body c) m) (issue_comments w n)),
        issue_comments := (\<lambda>k. filter (\<lambda>c. comment_id c \<notin> comment_id ` set (filter (\<lambda>c. includes_js (comment_body c) m) (issue_comments w n))) (issue_comments w k))\<rparr>)"
  by (simp add: cleanupWorkflowComments_def bind_def try_catch_def listComments_ok delete_each_ok)

lemma addLabels_dry:
  "dryRun opts \<Longrightarrow> addLabels opts n ls w = (Inr ls, w\<lparr>trace := trace w @ [AddLabels n ls]\<rparr>)"
  by (simp add: addLabels_def io_defs isDryRun_def)

lemma addLabels_ok:
  "\<not> dryRun opts \<Longrightarrow> faults w (requests w) = None \<Longrightarrow> addLabels opts n ls w =
     (Inr ls, w\<lparr>trace := trace w @ [AddLabels n ls], requests := requests w + 1,
        issue_labels := (issue_labels w)
          (n := issue_labels w n @ filter (\<lambda>l. l \<notin> set (issue_labels w n)) (remdups ls))\<rparr>)"
  by (simp add: addLabels_def io_defs isDryRun_def Let_def store_addLabels_def)

lemma rbl_errors:
  assumes nf: "\<forall>k. faults w k = None"
    and out: "validation_outcome nf' opts fs yaml (issue_labels w (number pr)) = (errs, labs)"
    and ne: "errs \<noteq> []"
  shows "processReleaseBackportLabeling nf' ctx opts pr yaml fs w =
     (Inr (),
      if dryRun opts then
        w\<lparr>trace := trace w @
          [CreateCheckRun (str ''YAML Validation (Release/Backport)'') (head_sha pr) (detailsUrl ctx),
           UpdateCheckRun DryRunCheckId (str ''completed'') (str ''failure'')
             (validationFailedOutput opts errs),
           CreateComment (number pr) (errorComment opts errs)],
          requests := requests w + 1\<rparr>
      else
        w\<lparr>trace := trace w @
          [CreateCheckRun (str ''YAML Validation (Release/Backport)'') (head_sha pr) (detailsUrl ctx),
           UpdateCheckRun (CheckId (next_id w)) (str ''completed'') (str ''failure'')
             (validationFailedOutput opts errs),
           CreateComment (number pr) (errorComment opts errs)],
          requests := requests w + 4,
          next_id := next_id w + 2,
          check_runs := (check_runs w)(next_id w \<mapsto>
              \<lparr>check_name = str ''YAML Validation (Release/Backport)'',
               check_head_sha = head_sha pr, details_url = detailsUrl ctx,
               check_status = str ''completed'', conclusion = Some (str ''failure''),
               check_output = Some (validationFailedOutput opts errs)\<rparr>),
          issue_comments := (issue_comments w)
              (number pr := issue_comments w (number pr)
                 @ [\<lparr>comment_id = next_id w + 1, comment_body = errorComment opts errs,
                     comment_created_at = clock w\<rparr>])\<rparr>)"
proof (cases "dryRun opts")
  case True
  with rbl_errors_dry [of opts w nf' fs yaml pr ctx] nf out ne show ?thesis by simp
next
  case False
  with rbl_errors_ok [of opts w nf' fs yaml pr ctx] nf out ne show ?thesis by simp
qed


lemma rbl_errors_twice:
  assumes nf: "\<forall>k. faults w k = None"
    and out: "validation_outcome nf' opts fs yaml (issue_labels w (number pr)) = (errs, labs)"
    and ne: "errs \<noteq> []"
    and r1: "processReleaseBackportLabeling nf' ctx opts pr yaml fs w = (x1, w1)"
    and r2: "processReleaseBackportLabeling nf' ctx opts pr yaml fs w1 = (x2, w2)"
  shows "issue_labels w1 = issue_labels w"
    and "x1 = Inr () \<and> x2 = Inr ()"
    and "trace w2 = trace w @
         [CreateCheckRun (str ''YAML Validation (Release/Backport)'') (head_sha pr) (detailsUrl ctx),
          UpdateCheckRun (if dryRun opts then DryRunCheckId else CheckId (next_id w))
            (str ''completed'') (str ''failure'') (validationFailedOutput opts errs),
          CreateComment (number pr) (errorComment opts errs),
          CreateCheckRun (str ''YAML Validation (Release/Backport)'') (head_sha pr) (detailsUrl ctx),
          UpdateCheckRun (if dryRun opts then DryRunCheckId else CheckId (next_id w + 2))
            (str ''completed'') (str ''failure'') (validationFailedOutput opts errs),
          CreateComment (number pr) (errorComment opts errs)]"
    and "\<not> dryRun opts \<Longrightarrow> issue_comments w2 (number pr) =
           issue_comments w (number pr)
           @ [\<lparr>comment_id = next_id w + 1, comment_body = errorComment opts errs,
               comment_created_at = clock w\<rparr>,
              \<lparr>comment_id = next_id w + 3, comment_body = errorComment opts errs,
               comment_created_at = clock w\<rparr>]"
    and "dryRun opts \<Longrightarrow> issue_comments w2 = issue_comments w"
proof -
  note first = r1 [unfolded rbl_errors [OF nf out ne]]
  from first have x1: "x1 = Inr ()" by simp
  from first show l1: "issue_labels w1 = issue_labels w" by (auto split: if_splits)
  from first nf have f1: "\<forall>k. faults w1 k = None" by (auto split: if_splits)
  from first have t1: "trace w1 = trace w @
         [CreateCheckRun (str ''YAML Validation (Release/Backport)'') (head_sha pr) (detailsUrl ctx),
          UpdateCheckRun (if dryRun opts then DryRunCheckId else CheckId (next_id w))
            (str ''completed'') (str ''failure'') (validationFailedOutput opts errs),
          CreateComment (number pr) (errorComment opts errs)]"
    by (auto split: if_splits)
  from first have n1: "\<not> dryRun opts \<Longrightarrow> next_id w1 = next_id w + 2" by auto
  from first have c1: "\<not> dryRun opts \<Longrightarrow> issue_comments w1 (number pr) = issue_comments w (number pr)
           @ [\<lparr>comment_id = next_id w + 1, comment_body = errorComment opts errs,
               comment_created_at = clock w\<rparr>]" by auto
  from first have c1d: "dryRun opts \<Longrightarrow> issue_comments w1 = issue_comments w" by auto
  from first have k1: "clock w1 = clock w" by (auto split: if_splits)
  from out l1 have out1: "validation_outcome nf' opts fs yaml (issue_labels w1 (number pr)) = (errs, labs)"
    by simp
  note second = r2 [unfolded rbl_errors [OF f1 out1 ne]]
  from second x1 show "x1 = Inr () \<and> x2 = Inr ()" by simp
  from second t1 n1 show "trace w2 = trace w @
         [CreateCheckRun (str ''YAML Validation (Release/Backport)'') (head_sha pr) (detailsUrl ctx),
          UpdateCheckRun (if dryRun opts then DryRunCheckId else CheckId (next_id w))
            (str ''completed'') (str ''failure'') (validationFailedOutput opts errs),
          CreateComment (number pr) (errorComment opts errs),
          CreateCheckRun (str ''YAML Validation (Release/Backport)'') (head_sha pr) (detailsUrl ctx),
          UpdateCheckRun (if dryRun opts then DryRunCheckId else CheckId (next_id w + 2))
            (str ''completed'') (str ''failure'') (validationFailedOutput opts errs),
          CreateComment (number pr) (errorComment opts errs)]"
    by (auto split: if_splits)
  show "issue_comments w2 (number pr) =
           issue_comments w (number pr)
           @ [\<lparr>comment_id = next_id w + 1, comment_body = errorComment opts errs,
               comment_created_at = clock w\<rparr>,
              \<lparr>comment_id = next_id w + 3, comment_body = errorComment opts errs,
               comment_created_at = clock w\<rparr>]" if "\<not> dryRun opts"
    using that second c1 n1 k1 by auto
  show "issue_comments w2 = issue_comments w" if "dryRun opts"
    using that second c1d by auto
qed

lemma rbl_success:
  assumes nf: "\<forall>k. faults w k = None"
    and out: "validation_outcome nf' opts fs yaml (issue_labels w (number pr)) = ([], labs)"
    and r: "processReleaseBackportLabeling nf' ctx opts pr yaml fs w = (x, w')"
  shows "x = Inr () \<and> (\<exists>out. trace w' = trace w @
         [CreateCheckRun (str ''YAML Validation (Release/Backport)'') (head_sha pr) (detailsUrl ctx)]
         @ map (\<lambda>c. DeleteComment (comment_id c))
             (filter (\<lambda>c. includes_js (comment_body c) marker_release_backport)
                (issue_comments w (number pr)))
         @ (if labs \<noteq> [] then [AddLabels (number pr) labs] else [])
         @ [UpdateCheckRun (if dryRun opts then DryRunCheckId else CheckId (next_id w))
              (str ''completed'') (str ''success'') out])"
proof (cases "dryRun opts")
  case True
  with nf out r show ?thesis
    by (cases "labs = []")
       (auto simp: processReleaseBackportLabeling_def Let_def bind_def try_catch_def modify_def
          createCheckRun_dry getLabels_ok cleanup_dry addLabels_dry updateCheckRun_dry)
next
  case False
  with nf out r show ?thesis
    by (cases "labs = []")
       (auto simp: processReleaseBackportLabeling_def Let_def bind_def try_catch_def modify_def
          createCheckRun_ok getLabels_ok cleanup_ok addLabels_ok updateCheckRun_ok)
qed

lemma includes_js_prefix: "prefix p s \<Longrightarrow> includes_js s p"
  by (cases s) auto

lemma includes_js_append: "includes_js (a @ p @ b) p"
  by (induction a) (simp_all add: includes_js_prefix)

lemma errorComment_has_marker: "includes_js (errorComment opts errs) marker_release_backport"
proof -
  have "errorComment opts errs = str ''## '' @ marker_release_backport @
     ([0x0A, 0x0A] @ join [0x0A] (map (\<lambda>e. str ''- '' @ e) errs) @ [0x0A, 0x0A]
     @ str ''### How to fix:'' @ [0x0A]
     @ str ''1. Update your PR description YAML block with valid values'' @ [0x0A]
     @ str ''2. The workflow will automatically re-run when you edit the description''
     @ [0x0A, 0x0A]
     @ str ''### Valid YAML format:'' @ [0x0A]
     @ how_to_fix_yaml opts @ [0x0A, 0x0A]
     @ str ''_This comment was posted by the repository automation workflow._'')"
    by (simp add: errorComment_def)
  then show ?thesis by (simp only: includes_js_append)
qed

lemma sample_outcome:
  "validation_outcome id sample_options (detectEnabledFeatures sample_context sample_options)
     (str ''release: 9.9'' @ [0x0A] @ str ''backport: 1.4'') []
   = ([cross @ str '' Invalid release value: '' @ quoted (str ''9.9'') @ str ''. Accepted values: 1.5, 1.6''],
      [str ''backport-1.4''])"
  by code_simp


lemma adds_no_label_trans:
  "adds_no_label w w1 \<Longrightarrow> adds_no_label w1 w2 \<Longrightarrow> adds_no_label w w2"
  by (simp add: adds_no_label_def)

lemma createCheckRun_adds_no_label:
  "createCheckRun opts a b c w = (r, w') \<Longrightarrow> adds_no_label w w'"
  by (auto simp: createCheckRun_def io_defs isDryRun_def Let_def adds_no_label_def
      split: if_splits option.splits prod.splits)

lemma getLabels_adds_no_label:
  "getLabels n w = (r, w') \<Longrightarrow>
     adds_no_label w w' \<and> (\<forall>L. r = Inr L \<longrightarrow> L = issue_labels w n)"
  by (auto simp: getLabels_def io_defs Let_def adds_no_label_def split: option.splits prod.splits)

lemma updateCheckRun_adds_no_label:
  "updateCheckRun opts i s c out w = (r, w') \<Longrightarrow> adds_no_label w w'"
  by (auto simp: updateCheckRun_def io_defs isDryRun_def Let_def adds_no_label_def
      store_updateCheckRun_def split: if_splits option.splits prod.splits check_id.splits)

lemma createComment_adds_no_label:
  "createComment opts n b w = (r, w') \<Longrightarrow> adds_no_label w w'"
  by (auto simp: createComment_def io_defs isDryRun_def Let_def adds_no_label_def
      split: if_splits option.splits prod.splits)

lemma handleValidationErrors_adds_no_label:
  assumes "handleValidationErrors opts n i errs w = (r, w')"
  shows "adds_no_label w w'"
proof -
  obtain r1 w1 where u: "updateCheckRun opts i (str ''completed'') (str ''failure'')
      (validationFailedOutput opts errs) w = (r1, w1)"
    by (cases "updateCheckRun opts i (str ''completed'') (str ''failure'')
      (validationFailedOutput opts errs) w")
  have f1: "adds_no_label w w1" by (rule updateCheckRun_adds_no_label [OF u])
  show ?thesis
  proof (cases r1)
    case (Inl e)
    with assms u have "w' = w1" by (simp add: handleValidationErrors_def bind_def)
    with f1 show ?thesis by simp
  next
    case (Inr x)
    with assms u have "createComment opts n (errorComment opts errs) w1 = (r, w')"
      by (simp add: handleValidationErrors_def bind_def)
    from adds_no_label_trans [OF f1 createComment_adds_no_label [OF this]] show ?thesis .
  qed
qed

text \<open>
  Whatever the API answers, a run of the release and backport rule with validation errors
  adds no label: every path of the run goes through createCheckRun, getLabels,
  handleValidationErrors and the update of the check run in the catch block only.
\<close>

lemma rbl_fail_closed:
  assumes out: "fst (validation_outcome nf opts fs yaml (issue_labels w (number pr))) \<noteq> []"
    and r: "processReleaseBackportLabeling nf ctx opts pr yaml fs w = (x, w')"
  shows "adds_no_label w w'"
proof -
  let ?h = "\<lambda>cid e. bind (updateCheckRun opts cid (str ''completed'') (str ''failure'')
                      \<lparr>out_title = str ''Label Assignment Failed'',
                       out_summary = str ''YAML validation passed but failed to add labels.'',
                       out_text = str ''**Error:** '' @ message e\<rparr>)
                (\<lambda>_. throw e)"
  have handler: "adds_no_label v v'" if "?h cid e v = (q, v')" for cid e v q v'
  proof -
    obtain r1 w1 where u: "updateCheckRun opts cid (str ''completed'') (str ''failure'')
                      \<lparr>out_title = str ''Label Assignment Failed'',
                       out_summary = str ''YAML validation passed but failed to add labels.'',
                       out_text = str ''**Error:** '' @ message e\<rparr> v = (r1, w1)"
      by (cases "updateCheckRun opts cid (str ''completed'') (str ''failure'')
                      \<lparr>out_title = str ''Label Assignment Failed'',
                       out_summary = str ''YAML validation passed but failed to add labels.'',
                       out_text = str ''**Error:** '' @ message e\<rparr> v")
    with that have "v' = w1" by (cases r1) (simp_all add: bind_def throw_def)
    with updateCheckRun_adds_no_label [OF u] show ?thesis by simp
  qed
  obtain r0 w0 where c: "createCheckRun opts (str ''YAML Validation (Release/Backport)'')
      (head_sha pr) (detailsUrl ctx) w = (r0, w0)"
    by (cases "createCheckRun opts (str ''YAML Validation (Release/Backport)'')
      (head_sha pr) (detailsUrl ctx) w")
  have f0: "adds_no_label w w0" by (rule createCheckRun_adds_no_label [OF c])
  show ?thesis
  proof (cases r0)
    case (Inl e)
    with r c have "w' = w0" by (simp add: processReleaseBackportLabeling_def Let_def bind_def)
    with f0 show ?thesis by simp
  next
    case (Inr cid)
    obtain r1 w1 where g: "getLabels (number pr) w0 = (r1, w1)"
      by (cases "getLabels (number pr) w0")
    from getLabels_adds_no_label [OF g] have f1: "adds_no_label w0 w1"
      and L: "\<forall>L. r1 = Inr L \<longrightarrow> L = issue_labels w0 (number pr)" by simp_all
    from f0 have l0: "issue_labels w0 = issue_labels w" by (simp add: adds_no_label_def)
    show ?thesis
    proof (cases r1)
      case e: (Inl e)
      with r c Inr g have "?h cid e w1 = (x, w')"
        by (simp add: processReleaseBackportLabeling_def Let_def bind_def try_catch_def)
      from adds_no_label_trans [OF adds_no_label_trans [OF f0 f1] handler [OF this]]
      show ?thesis .
    next
      case l: (Inr L')
      with L l0 have L': "L' = issue_labels w (number pr)" by simp
      obtain r2 w2 where hv: "handleValidationErrors opts (number pr) cid
          (fst (validation_outcome nf opts fs yaml (issue_labels w (number pr)))) w1 = (r2, w2)"
        by (cases "handleValidationErrors opts (number pr) cid
          (fst (validation_outcome nf opts fs yaml (issue_labels w (number pr)))) w1")
      have f2: "adds_no_label w1 w2" by (rule handleValidationErrors_adds_no_label [OF hv])
      show ?thesis
      proof (cases r2)
        case e2: (Inl e)
        with r c Inr g l L' out hv have "?h cid e w2 = (x, w')"
          by (simp add: processReleaseBackportLabeling_def Let_def bind_def try_catch_def)
        from adds_no_label_trans
          [OF adds_no_label_trans [OF adds_no_label_trans [OF f0 f1] f2] handler [OF this]]
        show ?thesis .
      next
        case ok: (Inr u)
        with r c Inr g l L' out hv have "w' = w2"
          by (simp add: processReleaseBackportLabeling_def Let_def bind_def try_catch_def)
        with adds_no_label_trans [OF adds_no_label_trans [OF f0 f1] f2] show ?thesis by simp
      qed
    qed
  qed
qed


text \<open>
  Claim C1. In a run of the release and backport rule whose combined list of validation
  errors is not empty, no call to add labels is made and the labels of the repository and
  of the result are unchanged, so no label of either category is added, also when the
  other category has valid labels to propose; this holds whatever the API answers. When
  the API answers every request, the run makes exactly three calls: it creates the check
  run, completes it with the conclusion failure, and posts one comment with all the
  errors. Under dry run the client logs these calls; otherwise the check run and the
  comment are in the repository afterwards.
\<close>

theorem validation_errors_fail_closed:
  assumes "validation_outcome nf opts fs yaml (issue_labels w (number pr)) = (errs, labs)"
    and "errs \<noteq> []"
  shows "issue_labels (snd (processReleaseBackportLabeling nf ctx opts pr yaml fs w)) = issue_labels w
    \<and> labelsAdded (snd (processReleaseBackportLabeling nf ctx opts pr yaml fs w)) = labelsAdded w
    \<and> (\<forall>n ls. AddLabels n ls \<in> set (trace (snd (processReleaseBackportLabeling nf ctx opts pr yaml fs w)))
          \<longrightarrow> AddLabels n ls \<in> set (trace w))
    \<and> ((\<forall>k. faults w k = None) \<longrightarrow>
        fst (processReleaseBackportLabeling nf ctx opts pr yaml fs w) = Inr ()
      \<and> trace (snd (processReleaseBackportLabeling nf ctx opts pr yaml fs w)) = trace w @
         [CreateCheckRun (str ''YAML Validation (Release/Backport)'') (head_sha pr) (detailsUrl ctx),
          UpdateCheckRun (if dryRun opts then DryRunCheckId else CheckId (next_id w))
            (str ''completed'') (str ''failure'') (validationFailedOutput opts errs),
          CreateComment (number pr) (errorComment opts errs)]
      \<and> (\<not> dryRun opts \<longrightarrow>
         check_runs (snd (processReleaseBackportLabeling nf ctx opts pr yaml fs w)) (next_id w) =
           Some \<lparr>check_name = str ''YAML Validation (Release/Backport)'',
                 check_head_sha = head_sha pr, details_url = detailsUrl ctx,
                 check_status = str ''completed'', conclusion = Some (str ''failure''),
                 check_output = Some (validationFailedOutput opts errs)\<rparr>
         \<and> issue_comments (snd (processReleaseBackportLabeling nf ctx opts pr yaml fs w)) (number pr) =
             issue_comments w (number pr)
             @ [\<lparr>comment_id = next_id w + 1, comment_body = errorComment opts errs,
                 comment_created_at = clock w\<rparr>]))"
proof -
  obtain x w' where r: "processReleaseBackportLabeling nf ctx opts pr yaml fs w = (x, w')"
    by (cases "processReleaseBackportLabeling nf ctx opts pr yaml fs w")
  from assms have "fst (validation_outcome nf opts fs yaml (issue_labels w (number pr))) \<noteq> []"
    by simp
  from rbl_fail_closed [OF this r] have "adds_no_label w w'" .
  with r have a: "issue_labels (snd (processReleaseBackportLabeling nf ctx opts pr yaml fs w))
        = issue_labels w
    \<and> labelsAdded (snd (processReleaseBackportLabeling nf ctx opts pr yaml fs w)) = labelsAdded w
    \<and> (\<forall>n ls. AddLabels n ls \<in> set (trace (snd (processReleaseBackportLabeling nf ctx opts pr yaml fs w)))
          \<longrightarrow> AddLabels n ls \<in> set (trace w))"
    by (simp add: adds_no_label_def)
  have b: "fst (processReleaseBackportLabeling nf ctx opts pr yaml fs w) = Inr ()
      \<and> trace (snd (processReleaseBackportLabeling nf ctx opts pr yaml fs w)) = trace w @
         [CreateCheckRun (str ''YAML Validation (Release/Backport)'') (head_sha pr) (detailsUrl ctx),
          UpdateCheckRun (if dryRun opts then DryRunCheckId else CheckId (next_id w))
            (str ''completed'') (str ''failure'') (validationFailedOutput opts errs),
          CreateComment (number pr) (errorComment opts errs)]
      \<and> (\<not> dryRun opts \<longrightarrow>
         check_runs (snd (processReleaseBackportLabeling nf ctx opts pr yaml fs w)) (next_id w) =
           Some \<lparr>check_name = str ''YAML Validation (Release/Backport)'',
                 check_head_sha = head_sha pr, details_url = detailsUrl ctx,
                 check_status = str ''completed'', conclusion = Some (str ''failure''),
                 check_output = Some (validationFailedOutput opts errs)\<rparr>
         \<and> issue_comments (snd (processReleaseBackportLabeling nf ctx opts pr yaml fs w)) (number pr) =
             issue_comments w (number pr)
             @ [\<lparr>comment_id = next_id w + 1, comment_body = errorComment opts errs,
                 comment_created_at = clock w\<rparr>])"
    if nofaults: "\<forall>k. faults w k = None"
    by (simp add: rbl_errors [OF nofaults assms])
  from a b show ?thesis by blast
qed

theorem validation_errors_fail_closed_witness:
  "(\<forall>k. faults quiet_world k = None)
   \<and> validation_outcome id sample_options (detectEnabledFeatures sample_context sample_options)
        (str ''release: 9.9'' @ [0x0A] @ str ''backport: 1.4'')
        (issue_labels quiet_world (number (sample_pull [])))
      = ([cross @ str '' Invalid release value: '' @ quoted (str ''9.9'')
            @ str ''. Accepted values: 1.5, 1.6''],
         [str ''backport-1.4''])
   \<and> fst (processReleaseBackportLabeling id sample_context sample_options (sample_pull [])
          (str ''release: 9.9'' @ [0x0A] @ str ''backport: 1.4'')
          (detectEnabledFeatures sample_context sample_options) quiet_world) = Inr ()
   \<and> trace (snd (processReleaseBackportLabeling id sample_context sample_options (sample_pull [])
          (str ''release: 9.9'' @ [0x0A] @ str ''backport: 1.4'')
          (detectEnabledFeatures sample_context sample_options) quiet_world)) =
       [CreateCheckRun (str ''YAML Validation (Release/Backport)'') (str ''abc123'')
          (detailsUrl sample_context),
        UpdateCheckRun (CheckId 1) (str ''completed'') (str ''failure'')
          (validationFailedOutput sample_options
            [cross @ str '' Invalid release value: '' @ quoted (str ''9.9'')
               @ str ''. Accepted values: 1.5, 1.6'']),
        CreateComment 7 (errorComment sample_options
            [cross @ str '' Invalid release value: '' @ quoted (str ''9.9'')
               @ str ''. Accepted values: 1.5, 1.6''])]
   \<and> issue_labels (snd (processReleaseBackportLabeling id sample_context sample_options
          (sample_pull []) (str ''release: 9.9'' @ [0x0A] @ str ''backport: 1.4'')
          (detectEnabledFeatures sample_context sample_options) quiet_world)) 7 = []
   \<and> \<not> dryRun sample_options
   \<and> issue_comments (snd (processReleaseBackportLabeling id sample_context sample_options
          (sample_pull []) (str ''release: 9.9'' @ [0x0A] @ str ''backport: 1.4'')
          (detectEnabledFeatures sample_context sample_options) quiet_world)) 7 =
       [\<lparr>comment_id = 2, comment_body = errorComment sample_options
            [cross @ str '' Invalid release value: '' @ quoted (str ''9.9'')
               @ str ''. Accepted values: 1.5, 1.6''],
          comment_created_at = 0\<rparr>]"
proof -
  let ?E = "cross @ str '' Invalid release value: '' @ quoted (str ''9.9'')
            @ str ''. Accepted values: 1.5, 1.6''"
  have h1: "\<forall>k. faults quiet_world k = None" by (simp add: quiet_world_def)
  have n: "number (sample_pull []) = 7" and hs: "head_sha (sample_pull []) = str ''abc123''"
    by (simp_all add: sample_pull_def)
  have l: "issue_labels quiet_world = (\<lambda>_. [])" and t: "trace quiet_world = []"
    and i: "next_id quiet_world = 1" and c: "issue_comments quiet_world = (\<lambda>_. [])"
    and k: "clock quiet_world = 0"
    by (simp_all add: quiet_world_def)
  have d: "\<not> dryRun sample_options" by (simp add: sample_options_def)
  have h2: "validation_outcome id sample_options (detectEnabledFeatures sample_context sample_options)
        (str ''release: 9.9'' @ [0x0A] @ str ''backport: 1.4'')
        (issue_labels quiet_world (number (sample_pull []))) = ([?E], [str ''backport-1.4''])"
    using sample_outcome by (simp add: l)
  have h3: "[?E] \<noteq> []" by simp
  from validation_errors_fail_closed [OF h2 h3, of sample_context] h1 h2
  show ?thesis by (simp add: n hs l t i d c k)
qed

text \<open>
  Claim C4 says that a second run with the same inputs replaces the error comment of the
  first run. handleValidationErrors only creates a comment: after two failing runs the
  pull request carries two error comments, both with the marker of the rule.
\<close>

theorem repeated_failing_run_counterexample:
  "map comment_body
     (issue_comments
        (snd (processReleaseBackportLabeling id sample_context sample_options (sample_pull [])
           (str ''release: 9.9'' @ [0x0A] @ str ''backport: 1.4'')
           (detectEnabledFeatures sample_context sample_options)
           (snd (processReleaseBackportLabeling id sample_context sample_options (sample_pull [])
              (str ''release: 9.9'' @ [0x0A] @ str ''backport: 1.4'')
              (detectEnabledFeatures sample_context sample_options) quiet_world)))) 7)
   = [errorComment sample_options
        [cross @ str '' Invalid release value: '' @ quoted (str ''9.9'')
           @ str ''. Accepted values: 1.5, 1.6''],
      errorComment sample_options
        [cross @ str '' Invalid release value: '' @ quoted (str ''9.9'')
           @ str ''. Accepted values: 1.5, 1.6'']]
   \<and> includes_js
        (errorComment sample_options
           [cross @ str '' Invalid release value: '' @ quoted (str ''9.9'')
              @ str ''. Accepted values: 1.5, 1.6''])
        marker_release_backport"
proof -
  let ?E = "cross @ str '' Invalid release value: '' @ quoted (str ''9.9'')
            @ str ''. Accepted values: 1.5, 1.6''"
  let ?run = "processReleaseBackportLabeling id sample_context sample_options (sample_pull [])
           (str ''release: 9.9'' @ [0x0A] @ str ''backport: 1.4'')
           (detectEnabledFeatures sample_context sample_options)"
  have h1: "\<forall>k. faults quiet_world k = None" by (simp add: quiet_world_def)
  have n: "number (sample_pull []) = 7" by (simp add: sample_pull_def)
  have l: "issue_labels quiet_world = (\<lambda>_. [])" and c: "issue_comments quiet_world = (\<lambda>_. [])"
    by (simp_all add: quiet_world_def)
  have d: "\<not> dryRun sample_options" by (simp add: sample_options_def)
  have h2: "validation_outcome id sample_options (detectEnabledFeatures sample_context sample_options)
        (str ''release: 9.9'' @ [0x0A] @ str ''backport: 1.4'')
        (issue_labels quiet_world (number (sample_pull []))) = ([?E], [str ''backport-1.4''])"
    using sample_outcome by (simp add: l)
  have h3: "[?E] \<noteq> []" by simp
  have r1: "?run quiet_world = (fst (?run quiet_world), snd (?run quiet_world))" by simp
  have r2: "?run (snd (?run quiet_world))
     = (fst (?run (snd (?run quiet_world))), snd (?run (snd (?run quiet_world))))" by simp
  from rbl_errors_twice(4) [OF h1 h2 h3 r1 r2 d]
  have "map comment_body (issue_comments (snd (?run (snd (?run quiet_world)))) 7)
     = [errorComment sample_options [?E], errorComment sample_options [?E]]"
    by (simp add: n c)
  then show ?thesis using errorComment_has_marker by blast
qed


text \<open>
  Claim C4, amended. Two runs of the rule, one after the other, with the same pull request
  body and configuration and an API that answers every request: when the validation
  fails, the first run leaves the labels as they are, the second run computes the same
  errors and the same proposed labels, and each run appends one error comment and deletes
  none, so that two comments with the same body are left (none under dry run); when the
  validation succeeds, a run creates no comment.
\<close>

theorem repeated_run_outcome:
  assumes "\<forall>k. faults w k = None"
    and "validation_outcome nf opts fs yaml (issue_labels w (number pr)) = (errs, labs)"
    and "processReleaseBackportLabeling nf ctx opts pr yaml fs w = (x1, w1)"
    and "processReleaseBackportLabeling nf ctx opts pr yaml fs w1 = (x2, w2)"
  shows "(errs \<noteq> [] \<longrightarrow>
            x1 = Inr () \<and> x2 = Inr ()
          \<and> issue_labels w1 = issue_labels w
          \<and> validation_outcome nf opts fs yaml (issue_labels w1 (number pr)) = (errs, labs)
          \<and> (\<not> dryRun opts \<longrightarrow>
                issue_comments w2 (number pr) =
                  issue_comments w (number pr)
                  @ [\<lparr>comment_id = next_id w + 1, comment_body = errorComment opts errs,
                      comment_created_at = clock w\<rparr>,
                     \<lparr>comment_id = next_id w + 3, comment_body = errorComment opts errs,
                      comment_created_at = clock w\<rparr>])
          \<and> (dryRun opts \<longrightarrow> issue_comments w2 = issue_comments w))
       \<and> (errs = [] \<longrightarrow>
            x1 = Inr ()
          \<and> (\<forall>m b. CreateComment m b \<notin> set (drop (length (trace w)) (trace w1))))"
proof (intro conjI impI)
  assume ne: "errs \<noteq> []"
  note t = rbl_errors_twice [OF assms(1) assms(2) ne assms(3) assms(4)]
  from t(2) show "x1 = Inr ()" and "x2 = Inr ()" by simp_all
  from t(1) show "issue_labels w1 = issue_labels w" .
  from t(1) assms(2) show "validation_outcome nf opts fs yaml (issue_labels w1 (number pr)) = (errs, labs)"
    by simp
  show "issue_comments w2 (number pr) =
                  issue_comments w (number pr)
                  @ [\<lparr>comment_id = next_id w + 1, comment_body = errorComment opts errs,
                      comment_created_at = clock w\<rparr>,
                     \<lparr>comment_id = next_id w + 3, comment_body = errorComment opts errs,
                      comment_created_at = clock w\<rparr>]" if "\<not> dryRun opts"
    using t(4) that by simp
  show "issue_comments w2 = issue_comments w" if "dryRun opts" using t(5) that by simp
next
  assume e: "errs = []"
  from rbl_success [OF assms(1) assms(2) [unfolded e] assms(3)]
  show "x1 = Inr ()" by simp
  from rbl_success [OF assms(1) assms(2) [unfolded e] assms(3)]
  show "\<forall>m b. CreateComment m b \<notin> set (drop (length (trace w)) (trace w1))"
    by auto
qed

theorem repeated_run_outcome_witness:
  "(\<forall>k. faults quiet_world k = None)
   \<and> validation_outcome id sample_options (detectEnabledFeatures sample_context sample_options)
        (str ''release: 9.9'' @ [0x0A] @ str ''backport: 1.4'')
        (issue_labels quiet_world (number (sample_pull [])))
      = ([cross @ str '' Invalid release value: '' @ quoted (str ''9.9'')
            @ str ''. Accepted values: 1.5, 1.6''],
         [str ''backport-1.4''])
   \<and> \<not> dryRun sample_options
   \<and> issue_comments
        (snd (processReleaseBackportLabeling id sample_context sample_options (sample_pull [])
           (str ''release: 9.9'' @ [0x0A] @ str ''backport: 1.4'')
           (detectEnabledFeatures sample_context sample_options)
           (snd (processReleaseBackportLabeling id sample_context sample_options (sample_pull [])
              (str ''release: 9.9'' @ [0x0A] @ str ''backport: 1.4'')
              (detectEnabledFeatures sample_context sample_options) quiet_world)))) 7
     = [\<lparr>comment_id = 2,
         comment_body = errorComment sample_options
           [cross @ str '' Invalid release value: '' @ quoted (str ''9.9'')
              @ str ''. Accepted values: 1.5, 1.6''],
         comment_created_at = 0\<rparr>,
        \<lparr>comment_id = 4,
         comment_body = errorComment sample_options
           [cross @ str '' Invalid release value: '' @ quoted (str ''9.9'')
              @ str ''. Accepted values: 1.5, 1.6''],
         comment_created_at = 0\<rparr>]"
proof -
  let ?E = "cross @ str '' Invalid release value: '' @ quoted (str ''9.9'')
            @ str ''. Accepted values: 1.5, 1.6''"
  let ?run = "processReleaseBackportLabeling id sample_context sample_options (sample_pull [])
           (str ''release: 9.9'' @ [0x0A] @ str ''backport: 1.4'')
           (detectEnabledFeatures sample_context sample_options)"
  have h1: "\<forall>k. faults quiet_world k = None" by (simp add: quiet_world_def)
  have n: "number (sample_pull []) = 7" by (simp add: sample_pull_def)
  have l: "issue_labels quiet_world = (\<lambda>_. [])" and c: "issue_comments quiet_world = (\<lambda>_. [])"
    and i: "next_id quiet_world = 1" and k: "clock quiet_world = 0"
    by (simp_all add: quiet_world_def)
  have d: "\<not> dryRun sample_options" by (simp add: sample_options_def)
  have h2: "validation_outcome id sample_options (detectEnabledFeatures sample_context sample_options)
        (str ''release: 9.9'' @ [0x0A] @ str ''backport: 1.4'')
        (issue_labels quiet_world (number (sample_pull []))) = ([?E], [str ''backport-1.4''])"
    using sample_outcome by (simp add: l)
  have r1: "?run quiet_world = (fst (?run quiet_world), snd (?run quiet_world))" by simp
  have r2: "?run (snd (?run quiet_world))
     = (fst (?run (snd (?run quiet_world))), snd (?run (snd (?run quiet_world))))" by simp
  from repeated_run_outcome [OF h1 h2 r1 r2] d
  have "issue_comments (snd (?run (snd (?run quiet_world)))) (number (sample_pull [])) =
          issue_comments quiet_world (number (sample_pull []))
          @ [\<lparr>comment_id = next_id quiet_world + 1, comment_body = errorComment sample_options [?E],
              comment_created_at = clock quiet_world\<rparr>,
             \<lparr>comment_id = next_id quiet_world + 3, comment_body = errorComment sample_options [?E],
              comment_created_at = clock quiet_world\<rparr>]"
    by blast
  with h1 h2 d show ?thesis by (simp add: n c i k)
qed



lemma label_checks_four:
  "truthy_at (label_checks ls
      [str ''release *'', str ''backport *'', str ''triage'', str ''ready for review''])
     (str ''backport *'') = list_ex (\<lambda>l. startsWith l (str ''backport '')) ls"
  "truthy_at (label_checks ls
      [str ''release *'', str ''backport *'', str ''triage'', str ''ready for review''])
     (str ''triage'') = (str ''triage'' \<in> set ls)"
  "truthy_at (label_checks ls
      [str ''release *'', str ''backport *'', str ''triage'', str ''ready for review''])
     (str ''ready for review'') = (str ''ready for review'' \<in> set ls)"
  by (simp_all add: label_checks_def truthy_at_def label_check_def str_def endsWith_def
      startsWith_def suffix_def)

lemma label_checks_release': 
  "truthy_at (label_checks ls
      [str ''release *'', str ''backport *'', str ''triage'', str ''ready for review''])
     (str ''release *'') = list_ex (\<lambda>l. startsWith l (str ''release '')) ls"
  by (simp add: label_checks_release startsWith_def)

lemma hasLabels_ok:
  "faults w (requests w) = None \<Longrightarrow> hasLabels n pats w =
     (Inr (label_checks (issue_labels w n) pats), w\<lparr>requests := requests w + 1\<rparr>)"
  by (simp add: hasLabels_def bind_def return_def getLabels_ok)

lemma handleReady_run:
  assumes "\<forall>k. faults w k = None"
  shows "handleReadyForReviewLabel opts n has w =
    (Inr (),
     if has then w
     else if dryRun opts then
       w\<lparr>trace := trace w @ [AddLabels n [str ''ready for review'']],
         labelsAdded := labelsAdded w @ [str ''ready for review''],
         actions := actions w @ [str ''Added '' @ quoted (str ''ready for review'')
                @ str '' label to PR #'' @ show_nat n
                @ str '' (has release label, not draft)'']\<rparr>
     else
       w\<lparr>trace := trace w @ [AddLabels n [str ''ready for review'']],
         requests := requests w + 1,
         issue_labels := (issue_labels w)
           (n := issue_labels w n @ filter (\<lambda>l. l \<notin> set (issue_labels w n)) [str ''ready for review'']),
         labelsAdded := labelsAdded w @ [str ''ready for review''],
         actions := actions w @ [str ''Added '' @ quoted (str ''ready for review'')
                @ str '' label to PR #'' @ show_nat n
                @ str '' (has release label, not draft)'']\<rparr>)"
  using assms
  by (simp add: handleReadyForReviewLabel_def bind_def return_def modify_def addLabels_dry addLabels_ok)

lemma handleTriage_run:
  assumes "\<forall>k. faults w k = None"
  shows "handleTriageLabel opts n has rel w =
    (Inr (),
     if has then w
     else if dryRun opts then
       w\<lparr>trace := trace w @ [AddLabels n [str ''triage'']],
         labelsAdded := labelsAdded w @ [str ''triage''],
         actions := actions w @ [str ''Added triage label to PR #'' @ show_nat n
                 @ str '' ('' @ (if \<not> rel then str ''no release/backport label''
                           else str ''is draft'') @ str '')'']\<rparr>
     else
       w\<lparr>trace := trace w @ [AddLabels n [str ''triage'']],
         requests := requests w + 1,
         issue_labels := (issue_labels w)
           (n := issue_labels w n @ filter (\<lambda>l. l \<notin> set (issue_labels w n)) [str ''triage'']),
         labelsAdded := labelsAdded w @ [str ''triage''],
         actions := actions w @ [str ''Added triage label to PR #'' @ show_nat n
                 @ str '' ('' @ (if \<not> rel then str ''no release/backport label''
                           else str ''is draft'') @ str '')'']\<rparr>)"
  using assms
  by (simp add: handleTriageLabel_def bind_def return_def modify_def addLabels_dry addLabels_ok Let_def)

lemma try_catch_Inr: "m w = (Inr x, w') \<Longrightarrow> try_catch m h w = (Inr x, w')"
  by (simp add: try_catch_def)

lemma hpe_release:
  assumes nf: "\<forall>k. faults w k = None" and nd: "\<not> draft pr"
    and rel: "list_ex (\<lambda>l. startsWith l (str ''release '')) (issue_labels w (number pr))
         \<or> yaml_field_present nf' (parseYamlFromText (case body pr of None \<Rightarrow> [] | Some b \<Rightarrow> b)) (str ''release'')"
  shows "handlePullRequestEvent nf' opts pr w =
     handleReadyForReviewLabel opts (number pr)
       (str ''ready for review'' \<in> set (issue_labels w (number pr)))
       (w\<lparr>requests := requests w + 2\<rparr>)"
proof -
  let ?n = "number pr"
  let ?w2 = "w\<lparr>requests := requests w + 2\<rparr>"
  let ?pats = "[str ''release *'', str ''backport *'', str ''triage'', str ''ready for review'']"
  have g: "getLabels ?n w = (Inr (issue_labels w ?n), w\<lparr>requests := requests w + 1\<rparr>)"
    using nf by (simp add: getLabels_ok)
  have h: "hasLabels ?n ?pats (w\<lparr>requests := requests w + 1\<rparr>)
      = (Inr (label_checks (issue_labels w ?n) ?pats), ?w2)"
    using nf by (simp add: hasLabels_ok)
  have nf2: "\<forall>k. faults ?w2 k = None" using nf by simp
  obtain W where r: "handleReadyForReviewLabel opts ?n
       (str ''ready for review'' \<in> set (issue_labels w ?n)) ?w2 = (Inr (), W)"
    using handleReady_run [OF nf2] by blast
  show ?thesis
    unfolding handlePullRequestEvent_def Let_def
    using nd rel
    apply (simp only: if_False)
    apply (rule trans [OF try_catch_Inr [where x="()" and w'=W]])
     apply (simp only: bind_def g h prod.case sum.case label_checks_four label_checks_release'
        if_True simp_thms r)
    apply (simp only: r)
    done
qed


lemma hpe_triage:
  assumes nf: "\<forall>k. faults w k = None" and nd: "\<not> draft pr"
    and rel: "\<not> (list_ex (\<lambda>l. startsWith l (str ''release '')) (issue_labels w (number pr))
         \<or> yaml_field_present nf' (parseYamlFromText (case body pr of None \<Rightarrow> [] | Some b \<Rightarrow> b)) (str ''release''))"
    and bp: "\<not> list_ex (\<lambda>l. startsWith l (str ''backport '')) (issue_labels w (number pr))
         \<and> \<not> yaml_field_present nf' (parseYamlFromText (case body pr of None \<Rightarrow> [] | Some b \<Rightarrow> b)) (str ''backport'')"
  shows "handlePullRequestEvent nf' opts pr w =
     handleTriageLabel opts (number pr)
       (str ''triage'' \<in> set (issue_labels w (number pr))) False
       (w\<lparr>requests := requests w + 2\<rparr>)"
proof -
  let ?n = "number pr"
  let ?w2 = "w\<lparr>requests := requests w + 2\<rparr>"
  let ?pats = "[str ''release *'', str ''backport *'', str ''triage'', str ''ready for review'']"
  have g: "getLabels ?n w = (Inr (issue_labels w ?n), w\<lparr>requests := requests w + 1\<rparr>)"
    using nf by (simp add: getLabels_ok)
  have h: "hasLabels ?n ?pats (w\<lparr>requests := requests w + 1\<rparr>)
      = (Inr (label_checks (issue_labels w ?n) ?pats), ?w2)"
    using nf by (simp add: hasLabels_ok)
  have nf2: "\<forall>k. faults ?w2 k = None" using nf by simp
  obtain W where r: "handleTriageLabel opts ?n
       (str ''triage'' \<in> set (issue_labels w ?n)) False ?w2 = (Inr (), W)"
    using handleTriage_run [OF nf2] by blast
  show ?thesis
    unfolding handlePullRequestEvent_def Let_def
    using nd rel bp
    apply (simp only: if_False)
    apply (rule trans [OF try_catch_Inr [where x="()" and w'=W]])
     apply (simp only: bind_def g h prod.case sum.case label_checks_four label_checks_release'
        if_True if_False simp_thms r)
    apply (simp only: r)
    done
qed

lemma hpe_backport:
  assumes nf: "\<forall>k. faults w k = None" and nd: "\<not> draft pr"
    and rel: "\<not> (list_ex (\<lambda>l. startsWith l (str ''release '')) (issue_labels w (number pr))
         \<or> yaml_field_present nf' (parseYamlFromText (case body pr of None \<Rightarrow> [] | Some b \<Rightarrow> b)) (str ''release''))"
    and bp: "\<not> (\<not> list_ex (\<lambda>l. startsWith l (str ''backport '')) (issue_labels w (number pr))
         \<and> \<not> yaml_field_present nf' (parseYamlFromText (case body pr of None \<Rightarrow> [] | Some b \<Rightarrow> b)) (str ''backport''))"
  shows "handlePullRequestEvent nf' opts pr w = (Inr (), w\<lparr>requests := requests w + 2\<rparr>)"
proof -
  let ?n = "number pr"
  let ?w2 = "w\<lparr>requests := requests w + 2\<rparr>"
  let ?pats = "[str ''release *'', str ''backport *'', str ''triage'', str ''ready for review'']"
  have g: "getLabels ?n w = (Inr (issue_labels w ?n), w\<lparr>requests := requests w + 1\<rparr>)"
    using nf by (simp add: getLabels_ok)
  have h: "hasLabels ?n ?pats (w\<lparr>requests := requests w + 1\<rparr>)
      = (Inr (label_checks (issue_labels w ?n) ?pats), ?w2)"
    using nf by (simp add: hasLabels_ok)
  show ?thesis
    unfolding handlePullRequestEvent_def Let_def
    using nd rel bp
    apply (simp only: if_False)
    apply (rule try_catch_Inr)
    apply (simp only: bind_def g h prod.case sum.case label_checks_four label_checks_release'
        if_True if_False simp_thms return_def)
    done
qed

text \<open>
  Claim C5. For a pull request that is not a draft, with an API that answers every request:
  when the pull request has a label that starts with \<^verbatim>\<open>release\<close> and a space, or the YAML
  block of its body has a release field, the label \<^verbatim>\<open>ready for review\<close> is added if it is
  missing; otherwise, when it has neither a label that starts with \<^verbatim>\<open>backport\<close> and a space
  nor a backport field, the label \<^verbatim>\<open>triage\<close> is added if it is missing; otherwise no label
  is changed. \<open>wanted\<close> is the label to add, if any: the run makes exactly that call to add
  labels, and outside dry run the labels of the pull request are extended by it.
\<close>

theorem smart_labeling_decision:
  assumes "\<forall>k. faults w k = None" and "\<not> draft pr"
    and "handlePullRequestEvent nf opts pr w = (x, w')"
  shows "x = Inr () \<and>
    (let L = issue_labels w (number pr);
         yamlContent = parseYamlFromText (case body pr of None \<Rightarrow> [] | Some b \<Rightarrow> b);
         releaseSignal = (list_ex (\<lambda>l. startsWith l (str ''release '')) L
                          \<or> yaml_field_present nf yamlContent (str ''release''));
         backportSignal = (list_ex (\<lambda>l. startsWith l (str ''backport '')) L
                          \<or> yaml_field_present nf yamlContent (str ''backport''));
         wanted = (if releaseSignal then
                     (if str ''ready for review'' \<in> set L then [] else [str ''ready for review''])
                   else if \<not> backportSignal then
                     (if str ''triage'' \<in> set L then [] else [str ''triage''])
                   else [])
     in trace w' = trace w @ map (\<lambda>l. AddLabels (number pr) [l]) wanted
        \<and> (if dryRun opts then issue_labels w' = issue_labels w
            else issue_labels w' = (issue_labels w)(number pr := L @ wanted)))"
proof -
  let ?L = "issue_labels w (number pr)"
  let ?y = "parseYamlFromText (case body pr of None \<Rightarrow> [] | Some b \<Rightarrow> b)"
  let ?rel = "list_ex (\<lambda>l. startsWith l (str ''release '')) ?L
                          \<or> yaml_field_present nf ?y (str ''release'')"
  let ?bp = "list_ex (\<lambda>l. startsWith l (str ''backport '')) ?L
                          \<or> yaml_field_present nf ?y (str ''backport'')"
  let ?w2 = "w\<lparr>requests := requests w + 2\<rparr>"
  let ?wanted = "if ?rel then
                     (if str ''ready for review'' \<in> set ?L then [] else [str ''ready for review''])
                   else if \<not> ?bp then
                     (if str ''triage'' \<in> set ?L then [] else [str ''triage''])
                   else []"
  have nf2: "\<forall>k. faults ?w2 k = None" using assms(1) by simp
  have goal: "x = Inr () \<and> trace w' = trace w @ map (\<lambda>l. AddLabels (number pr) [l]) ?wanted
        \<and> (if dryRun opts then issue_labels w' = issue_labels w
            else issue_labels w' = (issue_labels w)(number pr := ?L @ ?wanted))"
  proof (cases ?rel)
    case True
    note run = assms(3) [unfolded hpe_release [OF assms(1,2) True] handleReady_run [OF nf2]]
    show ?thesis
    proof (cases "str ''ready for review'' \<in> set ?L")
      case has: True
      with run have "x = Inr ()" "w' = ?w2" by simp_all
      with True has show ?thesis by simp
    next
      case has: False
      show ?thesis
      proof (cases "dryRun opts")
        case d: True
        with run has have "x = Inr ()" "trace w' = trace w @ [AddLabels (number pr) [str ''ready for review'']]"
          "issue_labels w' = issue_labels w" by auto
        with True has d show ?thesis by simp
      next
        case d: False
        with run has have "x = Inr ()" "trace w' = trace w @ [AddLabels (number pr) [str ''ready for review'']]"
          "issue_labels w' = (issue_labels w)(number pr := ?L @ [str ''ready for review''])" by auto
        with True has d show ?thesis by simp
      qed
    qed
  next
    case False
    show ?thesis
    proof (cases ?bp)
      case bp: True
      then have c2: "\<not> (\<not> list_ex (\<lambda>l. startsWith l (str ''backport '')) ?L
         \<and> \<not> yaml_field_present nf ?y (str ''backport''))" by blast
      note run = assms(3) [unfolded hpe_backport [OF assms(1,2) False c2]]
      then have "x = Inr ()" "w' = ?w2" by simp_all
      with False bp show ?thesis by simp
    next
      case bp: False
      then have b2: "\<not> list_ex (\<lambda>l. startsWith l (str ''backport '')) ?L
         \<and> \<not> yaml_field_present nf ?y (str ''backport'')" by blast
      note run = assms(3) [unfolded hpe_triage [OF assms(1,2) False b2] handleTriage_run [OF nf2]]
      show ?thesis
      proof (cases "str ''triage'' \<in> set ?L")
        case has: True
        with run have "x = Inr ()" "w' = ?w2" by simp_all
        with False bp has show ?thesis by simp
      next
        case has: False
        show ?thesis
        proof (cases "dryRun opts")
          case d: True
          with run has have "x = Inr ()" "trace w' = trace w @ [AddLabels (number pr) [str ''triage'']]"
            "issue_labels w' = issue_labels w" by auto
          with False bp has d show ?thesis by simp
        next
          case d: False
          with run has have "x = Inr ()" "trace w' = trace w @ [AddLabels (number pr) [str ''triage'']]"
            "issue_labels w' = (issue_labels w)(number pr := ?L @ [str ''triage''])" by auto
          with False bp has d show ?thesis by simp
        qed
      qed
    qed
  qed
  show ?thesis unfolding Let_def by (rule goal)
qed

theorem smart_labeling_decision_witness:
  "(\<forall>k. faults quiet_world k = None)
   \<and> \<not> draft (sample_pull body_with_release)
   \<and> yaml_field_present id (parseYamlFromText body_with_release) (str ''release'')
   \<and> fst (handlePullRequestEvent id sample_options (sample_pull body_with_release) quiet_world)
       = Inr ()
   \<and> trace (snd (handlePullRequestEvent id sample_options (sample_pull body_with_release)
         quiet_world))
       = [AddLabels 7 [str ''ready for review'']]
   \<and> issue_labels (snd (handlePullRequestEvent id sample_options (sample_pull body_with_release)
         quiet_world)) 7
       = [str ''ready for review'']"
proof -
  let ?run = "handlePullRequestEvent id sample_options (sample_pull body_with_release) quiet_world"
  have h1: "\<forall>k. faults quiet_world k = None" by (simp add: quiet_world_def)
  have h2: "\<not> draft (sample_pull body_with_release)" by (simp add: sample_pull_def)
  have n: "number (sample_pull body_with_release) = 7"
    and b: "body (sample_pull body_with_release) = Some body_with_release"
    by (simp_all add: sample_pull_def)
  have l: "issue_labels quiet_world = (\<lambda>_. [])" and t: "trace quiet_world = []"
    by (simp_all add: quiet_world_def)
  have d: "\<not> dryRun sample_options" by (simp add: sample_options_def)
  have y: "yaml_field_present id (parseYamlFromText body_with_release) (str ''release'')"
    by code_simp
  have r: "?run = (fst ?run, snd ?run)" by simp
  from smart_labeling_decision [OF h1 h2 r]
  have "fst ?run = Inr () \<and> trace (snd ?run) = [AddLabels 7 [str ''ready for review'']]
     \<and> issue_labels (snd ?run) = (\<lambda>_. [])(7 := [str ''ready for review''])"
    by (simp add: Let_def n b l t d y)
  with h1 h2 y show ?thesis by simp
qed









lemma fb_array:
  assumes nf: "\<forall>k. faults w k = None"
    and nl: "str ''feature-branch'' \<notin> set (issue_labels w (number pr))"
    and v: "parseYamlValue nf' yaml (str ''needs_feature_branch'') = Some (ArrayOf vs)"
  shows "fst (processFeatureBranchLabeling nf' ctx opts pr yaml w)
     = Inl (Err None (str ''featureBranchValue.toLowerCase is not a function''))"
proof (cases "dryRun opts")
  case True
  with nf nl v show ?thesis
    by (simp add: processFeatureBranchLabeling_def Let_def bind_def try_catch_def throw_def
          createCheckRun_dry getLabels_ok updateCheckRun_dry)
next
  case False
  with nf nl v show ?thesis
    by (simp add: processFeatureBranchLabeling_def Let_def bind_def try_catch_def throw_def
          createCheckRun_ok getLabels_ok updateCheckRun_ok)
qed




















end
